theory Spec2Isabelle
  imports Main
begin

section \<open>Strings and arrays\<close>

text \<open>
  The script under verification is \<^verbatim>\<open>assets/js/main.js\<close>, the page script of the
  Munificent site (its current revision: the functions \<^verbatim>\<open>fetchData\<close>,
  \<^verbatim>\<open>renderTeam\<close>, \<^verbatim>\<open>renderServices\<close>, \<^verbatim>\<open>renderBlog\<close>,
  \<^verbatim>\<open>renderAllArticles\<close>, \<^verbatim>\<open>init\<close>, \<^verbatim>\<open>renderFullArticle\<close>,
  \<^verbatim>\<open>setupMobileMenu\<close> and \<^verbatim>\<open>setupModal\<close>).

  A JavaScript string is a \<^typ>\<open>string\<close>. The script's literals outside ASCII (the
  Russian labels) are written as their UTF-8 bytes. The script only concatenates
  strings, searches a path for an ASCII substring and reads a decimal number, and
  none of these depends on how a character outside ASCII is encoded.
\<close>

text \<open>\<^verbatim>\<open>Array.prototype.join\<close>: the elements, with the separator between neighbours.\<close>

fun join :: "string list \<Rightarrow> string \<Rightarrow> string" where
  "join [] sep = []"
| "join [x] sep = x"
| "join (x # y # ys) sep = x @ sep @ join (y # ys) sep"

text \<open>\<^verbatim>\<open>Array.prototype.slice(b, e)\<close> for indices that are not negative.\<close>

definition slice :: "'a list \<Rightarrow> nat \<Rightarrow> nat \<Rightarrow> 'a list" where
  "slice xs b e = drop b (take e xs)"

fun startsWith :: "string \<Rightarrow> string \<Rightarrow> bool" where
  "startsWith s [] = True"
| "startsWith [] (c # t) = False"
| "startsWith (a # s) (c # t) = (a = c \<and> startsWith s t)"

text \<open>\<^verbatim>\<open>String.prototype.includes\<close>: the needle starts at some position of the string.\<close>

fun includes_str :: "string \<Rightarrow> string \<Rightarrow> bool" where
  "includes_str [] t = (t = [])"
| "includes_str (c # s) t = (startsWith (c # s) t \<or> includes_str s t)"

text \<open>The decimal digits of a number that is not negative, as a template prints it.\<close>

definition digit :: "nat \<Rightarrow> char" where
  "digit d = ''0123456789'' ! d"

fun show_nat :: "nat \<Rightarrow> string" where
  "show_nat n = (if n < 10 then [digit n] else show_nat (n div 10) @ [digit (n mod 10)])"

declare show_nat.simps [simp del]

section \<open>The records of the JSON files\<close>

text \<open>
  The three data files hold arrays of records. The fields a template prints are
  strings; a record that lacks a field, or holds another type in it, is outside
  this model.
\<close>

record member =
  member_photo :: string
  member_name :: string
  member_role :: string
  member_bio :: string
  member_subjects :: "string list"

record product =
  product_title :: string
  product_price :: string
  product_features :: "string list"
  product_isPopular :: bool

text \<open>
  The \<^verbatim>\<open>id\<close> of a post is compared with \<^verbatim>\<open>===\<close>, which tells a number from a
  string, so both are kept. \<^verbatim>\<open>content\<close> and \<^verbatim>\<open>image\<close> are optional.
\<close>

datatype jsval = JNum int | JStr string

record post =
  post_id :: jsval
  post_date :: string
  post_tags :: "string list"
  post_title :: string
  post_excerpt :: string
  post_link :: string
  post_content :: "string option"
  post_image :: "string option"

section \<open>The document\<close>

text \<open>
  An element's children are the markup last assigned to \<^verbatim>\<open>innerHTML\<close> or the text
  last assigned to \<^verbatim>\<open>textContent\<close>. \<^verbatim>\<open>classList\<close> is the ordered token list of
  the DOM; \<open>display\<close> is \<^verbatim>\<open>style.display\<close>; \<open>input_value\<close> and \<open>default_value\<close>
  are \<^verbatim>\<open>value\<close> and \<^verbatim>\<open>defaultValue\<close> of a form control, and \<open>in_form\<close> says
  that the element is a control of the contact form. \<open>value_mode_default\<close> holds for
  an input whose \<^verbatim>\<open>value\<close> is its \<^verbatim>\<open>value\<close> attribute (a hidden input, a button): an
  assignment to \<^verbatim>\<open>value\<close> writes the attribute, which is the default as well.
\<close>

datatype content = Markup string | PlainText string

record element =
  inner :: content
  classList :: "string list"
  display :: string
  disabled :: bool
  input_value :: string
  default_value :: string
  in_form :: bool
  value_mode_default :: bool

text \<open>\<^verbatim>\<open>control.value = v\<close>.\<close>

definition assign_value :: "string \<Rightarrow> element \<Rightarrow> element" where
  "assign_value v e =
     e\<lparr>input_value := v,
       default_value := (if value_mode_default e then v else default_value e)\<rparr>"

datatype js_error = Error string | TypeError string | Rejection string

datatype log_entry = ConsoleLog string "js_error option" | ConsoleError string js_error

text \<open>The two callbacks the script hands to \<^verbatim>\<open>setTimeout\<close>.\<close>

datatype timer_task = AddOpenClass | HideModal

text \<open>
  The page: \<open>elems\<close> answers \<^verbatim>\<open>document.querySelector\<close> and
  \<^verbatim>\<open>document.getElementById\<close>, keyed by the very string the script passes
  (\<open>None\<close> is \<^verbatim>\<open>null\<close>); different keys are different elements. \<open>doc_title\<close> is
  \<^verbatim>\<open>document.title\<close>, \<open>console\<close> the diagnostic log, \<open>alerts\<close> the texts shown by
  \<^verbatim>\<open>alert\<close>, \<open>now\<close> the clock in milliseconds, \<open>timers\<close> the pending timeouts with
  the time they are due, and \<open>uncaught\<close> the exceptions no handler caught.
\<close>

record page =
  elems :: "string \<rightharpoonup> element"
  doc_title :: string
  console :: "log_entry list"
  alerts :: "string list"
  now :: nat
  timers :: "(nat \<times> timer_task) list"
  uncaught :: "js_error list"

text \<open>\<^verbatim>\<open>window.location\<close>.\<close>

record location =
  pathname :: string
  search :: string
  href :: string

text \<open>\<^verbatim>\<open>CONFIG\<close>.\<close>

definition CONFIG_paths_team :: string where "CONFIG_paths_team = ''data/team.json''"
definition CONFIG_paths_products :: string where "CONFIG_paths_products = ''data/products.json''"
definition CONFIG_paths_blog :: string where "CONFIG_paths_blog = ''data/blog.json''"
definition CONFIG_selectors_team :: string where "CONFIG_selectors_team = ''#team-container''"
definition CONFIG_selectors_services :: string where "CONFIG_selectors_services = ''#services-container''"
definition CONFIG_selectors_blog :: string where "CONFIG_selectors_blog = ''#blog-preview''"
definition CONFIG_selectors_fullBlog :: string where "CONFIG_selectors_fullBlog = ''#full-blog-list''"

section \<open>The data loader\<close>

text \<open>
  What \<^verbatim>\<open>fetch(url)\<close> does: it rejects (a network error), or it resolves to a
  response with a status, whose \<^verbatim>\<open>json()\<close> rejects (\<open>Inl\<close>: the body is not JSON) or
  gives the parsed value (\<open>Inr\<close>; \<open>None\<close> is the JSON value \<^verbatim>\<open>null\<close>).
  \<^verbatim>\<open>response.ok\<close> is a status in the range 200 to 299.
\<close>

datatype 'a fetch_outcome = NetworkError js_error | Response nat "js_error + 'a option"

definition response_ok :: "nat \<Rightarrow> bool" where
  "response_ok status = (200 \<le> status \<and> status \<le> 299)"

text \<open>
  The network: what the fetch of each data file does, and the time at which it
  settles. Fetches that run together finish in the order of these times (in the
  order of the calls when the times are equal).
\<close>

datatype source = Team | Products | Blog

record network =
  net_team :: "member list fetch_outcome"
  net_products :: "product list fetch_outcome"
  net_blog :: "post list fetch_outcome"
  net_settled :: "source \<Rightarrow> nat"

text \<open>The two messages of the loader.\<close>

definition httpErrorMessage :: "nat \<Rightarrow> string" where
  \<open>httpErrorMessage status =
     ''HTTP error! Status: '' @
     show_nat status\<close>

definition fetchErrorMessage :: "string \<Rightarrow> string" where
  \<open>fetchErrorMessage url =
     ''Error fetching data from '' @
     url @
     '':''\<close>

text \<open>
  \<^verbatim>\<open>fetchData\<close>. The \<^verbatim>\<open>try\<close> block is the inner \<open>case\<close>: it throws (\<open>Inl\<close>) on a
  rejected fetch, on a status that is not \<^verbatim>\<open>ok\<close> and on a body that is not JSON.
  The \<^verbatim>\<open>catch\<close> block is the outer one: it logs and returns \<^verbatim>\<open>null\<close>.
\<close>

definition fetchData :: "string \<Rightarrow> 'a fetch_outcome \<Rightarrow> page \<Rightarrow> 'a option \<times> page" where
  "fetchData url outcome pg =
     (case (case outcome of
              NetworkError e \<Rightarrow> Inl e
            | Response status body \<Rightarrow>
                if \<not> response_ok status then Inl (Error (httpErrorMessage status))
                else body) of
        Inl error \<Rightarrow>
          (None, pg\<lparr>console := console pg @ [ConsoleError (fetchErrorMessage url) error]\<rparr>)
      | Inr v \<Rightarrow> (v, pg))"

text \<open>The outcomes on which the \<^verbatim>\<open>try\<close> block throws.\<close>

definition fetch_failed :: "'a fetch_outcome \<Rightarrow> bool" where
  "fetch_failed outcome =
     (case outcome of
        NetworkError e \<Rightarrow> True
      | Response status body \<Rightarrow> (if response_ok status then isl body else True))"

section \<open>The renderers\<close>

text \<open>\<^verbatim>\<open>container.innerHTML = html\<close> on the element found under a key.\<close>

definition set_innerHTML :: "string \<Rightarrow> element \<Rightarrow> string \<Rightarrow> page \<Rightarrow> page" where
  "set_innerHTML key container html pg =
     pg\<lparr>elems := (elems pg)(key \<mapsto> container\<lparr>inner := Markup html\<rparr>)\<rparr>"

text \<open>
  The markup of one record, as the template literals of the four renderers build
  it (white space included).
\<close>

definition teamCard :: "member \<Rightarrow> string" where
  \<open>teamCard m =
     ''\<newline>'' @
     ''        <div class="card team-card">\<newline>'' @
     ''            <div class="team-card__image-wrapper">\<newline>'' @
     ''                <img src="'' @
     member_photo m @
     ''" alt="'' @
     member_name m @
     ''" class="team-card__image" loading="lazy">\<newline>'' @
     ''            </div>\<newline>'' @
     ''            <div class="team-card__content">\<newline>'' @
     ''                <h3 class="team-card__name">'' @
     member_name m @
     ''</h3>\<newline>'' @
     ''                <span class="badge team-card__role">'' @
     member_role m @
     ''</span>\<newline>'' @
     ''                <p class="team-card__bio">'' @
     member_bio m @
     ''</p>\<newline>'' @
     ''                <div class="team-card__subjects">\<newline>'' @
     ''                    '' @
     join (map (\<lambda>subject. ''<span class="tag">'' @ subject @ ''</span>'') (member_subjects m)) '''' @
     ''\<newline>'' @
     ''                </div>\<newline>'' @
     ''            </div>\<newline>'' @
     ''        </div>\<newline>'' @
     ''    ''\<close>

definition serviceCard :: "product \<Rightarrow> string" where
  \<open>serviceCard p =
     ''\<newline>'' @
     ''        <div class="card service-card '' @
     (if product_isPopular p then ''card--popular'' else '''') @
     ''">\<newline>'' @
     ''            '' @
     (if product_isPopular p then ''<span class="badge badge--popular">Popular</span>'' else '''') @
     ''\<newline>'' @
     ''            <h3 class="service-card__title">'' @
     product_title p @
     ''</h3>\<newline>'' @
     ''            <div class="service-card__price">'' @
     product_price p @
     ''</div>\<newline>'' @
     ''            <ul class="service-card__features">\<newline>'' @
     ''                '' @
     join (map (\<lambda>feature. ''<li class="service-card__feature-item">'' @ feature @ ''</li>'') (product_features p)) '''' @
     ''\<newline>'' @
     ''            </ul>\<newline>'' @
     ''            <a href="https://wa.me/77085365323?text='' @
     [CHR 0xD0, CHR 0x97, CHR 0xD0, CHR 0xB4, CHR 0xD1, CHR 0x80, CHR 0xD0, CHR 0xB0, CHR 0xD0,
      CHR 0xB2, CHR 0xD1, CHR 0x81, CHR 0xD1, CHR 0x82, CHR 0xD0, CHR 0xB2, CHR 0xD1, CHR 0x83,
      CHR 0xD0, CHR 0xB9, CHR 0xD1, CHR 0x82, CHR 0xD0, CHR 0xB5] @
     ''!%20'' @
     [CHR 0xD0, CHR 0xA5, CHR 0xD0, CHR 0xBE, CHR 0xD1, CHR 0x87, CHR 0xD1, CHR 0x83] @
     ''%20'' @
     [CHR 0xD0, CHR 0xB7, CHR 0xD0, CHR 0xB0, CHR 0xD0, CHR 0xBF, CHR 0xD0, CHR 0xB8, CHR 0xD1,
      CHR 0x81, CHR 0xD0, CHR 0xB0, CHR 0xD1, CHR 0x82, CHR 0xD1, CHR 0x8C, CHR 0xD1, CHR 0x81,
      CHR 0xD1, CHR 0x8F] @
     ''%20'' @
     [CHR 0xD0, CHR 0xBD, CHR 0xD0, CHR 0xB0] @
     ''%20'' @
     [CHR 0xD0, CHR 0xBA, CHR 0xD1, CHR 0x83, CHR 0xD1, CHR 0x80, CHR 0xD1, CHR 0x81] @
     '':%20'' @
     product_title p @
     ''" target="_blank" class="btn btn--primary service-card__action">'' @
     [CHR 0xD0, CHR 0x97, CHR 0xD0, CHR 0xB0, CHR 0xD0, CHR 0xBF, CHR 0xD0, CHR 0xB8, CHR 0xD1,
      CHR 0x81, CHR 0xD0, CHR 0xB0, CHR 0xD1, CHR 0x82, CHR 0xD1, CHR 0x8C, CHR 0xD1, CHR 0x81,
      CHR 0xD1, CHR 0x8F] @
     '' '' @
     [CHR 0xD0, CHR 0xB2] @
     '' WhatsApp</a>\<newline>'' @
     ''        </div>\<newline>'' @
     ''    ''\<close>

text \<open>
  The arrow function \<^verbatim>\<open>tag => <span class="tag tag--small">${tag}</span>\<close>, which
  both blog templates map over the tags.
\<close>

definition tagSmall :: "string \<Rightarrow> string" where
  \<open>tagSmall tag = ''<span class="tag tag--small">'' @ tag @ ''</span>''\<close>

definition blogCard :: "post \<Rightarrow> string" where
  \<open>blogCard p =
     ''\<newline>'' @
     ''        <div class="card blog-card">\<newline>'' @
     ''            <div class="blog-card__header">\<newline>'' @
     ''                <time class="blog-card__date" datetime="'' @
     post_date p @
     ''">'' @
     post_date p @
     ''</time>\<newline>'' @
     ''                <div class="blog-card__tags">\<newline>'' @
     ''                    '' @
     join (map tagSmall (slice (post_tags p) 0 2)) '''' @
     ''\<newline>'' @
     ''                </div>\<newline>'' @
     ''            </div>\<newline>'' @
     ''            <h3 class="blog-card__title">'' @
     post_title p @
     ''</h3>\<newline>'' @
     ''            <p class="blog-card__excerpt">'' @
     post_excerpt p @
     ''</p>\<newline>'' @
     ''            <a href="'' @
     post_link p @
     ''" class="link link--arrow">'' @
     [CHR 0xD0, CHR 0xA7, CHR 0xD0, CHR 0xB8, CHR 0xD1, CHR 0x82, CHR 0xD0, CHR 0xB0, CHR 0xD1,
      CHR 0x82, CHR 0xD1, CHR 0x8C] @
     '' '' @
     [CHR 0xD0, CHR 0xB4, CHR 0xD0, CHR 0xB0, CHR 0xD0, CHR 0xBB, CHR 0xD0, CHR 0xB5, CHR 0xD0,
      CHR 0xB5] @
     '' &rarr;</a>\<newline>'' @
     ''        </div>\<newline>'' @
     ''    ''\<close>

definition articleCard :: "post \<Rightarrow> string" where
  \<open>articleCard p =
     ''\<newline>'' @
     ''        <div class="card blog-card" style="display: flex; flex-direction: column; height: 100%;">\<newline>'' @
     ''            <div class="blog-card__header">\<newline>'' @
     ''                <time class="blog-card__date" datetime="'' @
     post_date p @
     ''">'' @
     post_date p @
     ''</time>\<newline>'' @
     ''                <div class="blog-card__tags">\<newline>'' @
     ''                    '' @
     join (map tagSmall (post_tags p)) '''' @
     ''\<newline>'' @
     ''                </div>\<newline>'' @
     ''            </div>\<newline>'' @
     ''            <h3 class="blog-card__title" style="margin-top: auto; margin-bottom: 0.5rem;">'' @
     post_title p @
     ''</h3>\<newline>'' @
     ''            <p class="blog-card__excerpt" style="flex-grow: 1;">'' @
     post_excerpt p @
     ''</p>\<newline>'' @
     ''            <a href="'' @
     post_link p @
     ''" class="link link--arrow" style="margin-top: 1rem;">'' @
     [CHR 0xD0, CHR 0xA7, CHR 0xD0, CHR 0xB8, CHR 0xD1, CHR 0x82, CHR 0xD0, CHR 0xB0, CHR 0xD1,
      CHR 0x82, CHR 0xD1, CHR 0x8C] @
     '' '' @
     [CHR 0xD0, CHR 0xB4, CHR 0xD0, CHR 0xB0, CHR 0xD0, CHR 0xBB, CHR 0xD0, CHR 0xB5, CHR 0xD0,
      CHR 0xB5] @
     '' &rarr;</a>\<newline>'' @
     ''        </div>\<newline>'' @
     ''    ''\<close>


text \<open>
  Each renderer returns at once when the container is \<^verbatim>\<open>null\<close> or the data is
  (\<^verbatim>\<open>!container || !data\<close>; an array is never falsy).
\<close>

definition renderTeam :: "member list option \<Rightarrow> page \<Rightarrow> page" where
  "renderTeam data pg =
     (case elems pg CONFIG_selectors_team of
        None \<Rightarrow> pg
      | Some container \<Rightarrow>
          (case data of
             None \<Rightarrow> pg
           | Some d \<Rightarrow> set_innerHTML CONFIG_selectors_team container (join (map teamCard d) []) pg))"

definition renderServices :: "product list option \<Rightarrow> page \<Rightarrow> page" where
  "renderServices data pg =
     (case elems pg CONFIG_selectors_services of
        None \<Rightarrow> pg
      | Some container \<Rightarrow>
          (case data of
             None \<Rightarrow> pg
           | Some d \<Rightarrow> set_innerHTML CONFIG_selectors_services container (join (map serviceCard d) []) pg))"

definition renderBlog :: "post list option \<Rightarrow> page \<Rightarrow> page" where
  "renderBlog data pg =
     (case elems pg CONFIG_selectors_blog of
        None \<Rightarrow> pg
      | Some container \<Rightarrow>
          (case data of
             None \<Rightarrow> pg
           | Some d \<Rightarrow> set_innerHTML CONFIG_selectors_blog container (join (map blogCard d) []) pg))"

definition renderAllArticles :: "post list option \<Rightarrow> page \<Rightarrow> page" where
  "renderAllArticles data pg =
     (case elems pg CONFIG_selectors_fullBlog of
        None \<Rightarrow> pg
      | Some container \<Rightarrow>
          (case data of
             None \<Rightarrow> pg
           | Some d \<Rightarrow> set_innerHTML CONFIG_selectors_fullBlog container (join (map articleCard d) []) pg))"

section \<open>The query string and \<^verbatim>\<open>parseInt\<close>\<close>

text \<open>
  \<^verbatim>\<open>new URLSearchParams(window.location.search)\<close>, after the URL standard: a leading
  question mark is dropped, the rest is split at every \<^verbatim>\<open>&\<close>, empty pieces are
  skipped, a piece is split at its first \<^verbatim>\<open>=\<close>, every \<^verbatim>\<open>+\<close> becomes a space and
  percent escapes are decoded. (The bytes are kept as decoded; the standard replaces
  a byte sequence that is not UTF-8 by U+FFFD, which is neither a digit, a sign nor
  white space.)
\<close>

fun splitOn :: "char \<Rightarrow> string \<Rightarrow> string list" where
  "splitOn c [] = [[]]"
| "splitOn c (x # xs) =
     (if x = c then [] # splitOn c xs
      else (case splitOn c xs of [] \<Rightarrow> [[x]] | w # ws \<Rightarrow> (x # w) # ws))"

definition hexVal :: "char \<Rightarrow> nat option" where
  "hexVal c =
     (let n = (of_char c :: nat) in
      if 48 \<le> n \<and> n \<le> 57 then Some (n - 48)
      else if 97 \<le> n \<and> n \<le> 102 then Some (n - 87)
      else if 65 \<le> n \<and> n \<le> 70 then Some (n - 55)
      else None)"

fun percentDecode :: "string \<Rightarrow> string" where
  "percentDecode (c # a # b # s) =
     (if c = CHR ''%'' then
        (case (hexVal a, hexVal b) of
           (Some h, Some l) \<Rightarrow> char_of (16 * h + l) # percentDecode s
         | _ \<Rightarrow> c # percentDecode (a # b # s))
      else c # percentDecode (a # b # s))"
| "percentDecode s = s"

definition formDecode :: "string \<Rightarrow> string" where
  "formDecode s = percentDecode (map (\<lambda>c. if c = CHR ''+'' then CHR '' '' else c) s)"

definition URLSearchParams :: "string \<Rightarrow> (string \<times> string) list" where
  "URLSearchParams init =
     map (\<lambda>piece. (formDecode (takeWhile (\<lambda>c. c \<noteq> CHR ''='') piece),
                    formDecode (drop 1 (dropWhile (\<lambda>c. c \<noteq> CHR ''='') piece))))
       (filter (\<lambda>piece. piece \<noteq> [])
          (splitOn CHR ''&'' (if startsWith init ''?'' then drop 1 init else init)))"

text \<open>\<^verbatim>\<open>URLSearchParams.get\<close>: the value of the first pair with the name, else \<^verbatim>\<open>null\<close>.\<close>

definition params_get :: "(string \<times> string) list \<Rightarrow> string \<Rightarrow> string option" where
  "params_get params name = map_option snd (find (\<lambda>(k, v). k = name) params)"

text \<open>
  \<^verbatim>\<open>parseInt\<close> with no radix, after ECMAScript: the argument is turned into a string
  (\<^verbatim>\<open>null\<close> into \<^verbatim>\<open>"null"\<close>), leading white space and one sign are dropped, a prefix
  \<^verbatim>\<open>0x\<close> selects radix 16, and the longest run of digits is read; no digit gives
  \<^verbatim>\<open>NaN\<close>, which is \<open>None\<close> here. Both zeros are \<open>Some 0\<close>. The result is the exact
  integer that the digits denote. The JavaScript number is the double nearest to
  it: the same integer when it is a safe integer (below \<open>2 ^ 53\<close> in magnitude),
  and a number of magnitude \<open>2 ^ 53\<close> or more otherwise, never zero and never
  \<^verbatim>\<open>NaN\<close>. So the test \<^verbatim>\<open>!id\<close> is exact for every string, and every property below
  that reads the number itself is stated for safe integers only. A numeric \<^verbatim>\<open>id\<close>
  of a post that is not a safe integer is likewise a double of magnitude \<open>2 ^ 53\<close>
  or more, and equal to no safe integer.
\<close>

definition safe_integer :: "int \<Rightarrow> bool" where
  "safe_integer n = (\<bar>n\<bar> < 2 ^ 53)"

definition whiteSpace :: "string list" where
  "whiteSpace =
     [[CHR 0x09], [CHR 0x0A], [CHR 0x0B], [CHR 0x0C], [CHR 0x0D], [CHR 0x20],
      [CHR 0xC2, CHR 0xA0], [CHR 0xE1, CHR 0x9A, CHR 0x80],
      [CHR 0xE2, CHR 0x80, CHR 0x80], [CHR 0xE2, CHR 0x80, CHR 0x81],
      [CHR 0xE2, CHR 0x80, CHR 0x82], [CHR 0xE2, CHR 0x80, CHR 0x83],
      [CHR 0xE2, CHR 0x80, CHR 0x84], [CHR 0xE2, CHR 0x80, CHR 0x85],
      [CHR 0xE2, CHR 0x80, CHR 0x86], [CHR 0xE2, CHR 0x80, CHR 0x87],
      [CHR 0xE2, CHR 0x80, CHR 0x88], [CHR 0xE2, CHR 0x80, CHR 0x89],
      [CHR 0xE2, CHR 0x80, CHR 0x8A], [CHR 0xE2, CHR 0x80, CHR 0xA8],
      [CHR 0xE2, CHR 0x80, CHR 0xA9], [CHR 0xE2, CHR 0x80, CHR 0xAF],
      [CHR 0xE2, CHR 0x81, CHR 0x9F], [CHR 0xE3, CHR 0x80, CHR 0x80],
      [CHR 0xEF, CHR 0xBB, CHR 0xBF]]"

function trimStart :: "string \<Rightarrow> string" where
  "trimStart s =
     (case find (startsWith s) whiteSpace of
        None \<Rightarrow> s
      | Some w \<Rightarrow> trimStart (drop (length w) s))"
  by pat_completeness auto
termination
proof (relation "measure length")
  show "wf (measure length)" by simp
next
  fix s w
  assume found: "find (startsWith s) whiteSpace = Some w"
  have len: "startsWith a b \<Longrightarrow> length b \<le> length a" for a b
    by (induction a b rule: startsWith.induct) auto
  from found have "w \<noteq> []"
    by (auto simp: whiteSpace_def split: if_splits)
  moreover from found have "startsWith s w"
    by (auto simp: find_Some_iff)
  ultimately show "(drop (length w) s, s) \<in> measure length"
    using len [of s w] by (cases s) auto
qed

declare trimStart.simps [simp del]

definition digitVal :: "char \<Rightarrow> nat option" where
  "digitVal c =
     (let n = (of_char c :: nat) in
      if 48 \<le> n \<and> n \<le> 57 then Some (n - 48)
      else if 97 \<le> n \<and> n \<le> 122 then Some (n - 87)
      else if 65 \<le> n \<and> n \<le> 90 then Some (n - 55)
      else None)"

definition radixDigit :: "nat \<Rightarrow> char \<Rightarrow> bool" where
  "radixDigit R c = (case digitVal c of None \<Rightarrow> False | Some d \<Rightarrow> d < R)"

definition parseInt :: "string option \<Rightarrow> int option" where
  "parseInt arg =
     (let inputString = (case arg of None \<Rightarrow> ''null'' | Some s \<Rightarrow> s);
          S = trimStart inputString;
          sign = (if startsWith S ''-'' then - 1 else 1);
          S1 = (if startsWith S ''+'' \<or> startsWith S ''-'' then drop 1 S else S);
          hex = (startsWith S1 ''0x'' \<or> startsWith S1 ''0X'');
          R = (if hex then 16 else 10);
          S2 = (if hex then drop 2 S1 else S1);
          Z = takeWhile (radixDigit R) S2
      in if Z = [] then None
         else Some (sign * int (foldl (\<lambda>a c. case digitVal c of None \<Rightarrow> a | Some d \<Rightarrow> a * R + d) 0 Z)))"

section \<open>The article page\<close>

text \<open>
  A statement that assigns to a property of \<^verbatim>\<open>document.getElementById(key)\<close> throws a
  \<^verbatim>\<open>TypeError\<close> when the element is \<^verbatim>\<open>null\<close>. The result of a run of statements is
  \<open>Inr\<close> the page they leave, or \<open>Inl\<close> the exception with the page as the statements
  before it left it.
\<close>

type_synonym outcome = "js_error \<times> page + page"

definition setProp :: "string \<Rightarrow> (element \<Rightarrow> element) \<Rightarrow> page \<Rightarrow> outcome" where
  "setProp key f pg =
     (case elems pg key of
        None \<Rightarrow> Inl (TypeError ''Cannot set properties of null'', pg)
      | Some e \<Rightarrow> Inr (pg\<lparr>elems := (elems pg)(key \<mapsto> f e)\<rparr>))"

text \<open>The page a run of statements leaves, thrown or not.\<close>

definition page_after :: "outcome \<Rightarrow> page" where
  "page_after r = (case r of Inl (err, pg) \<Rightarrow> pg | Inr pg \<Rightarrow> pg)"

definition andThen :: "outcome \<Rightarrow> (page \<Rightarrow> outcome) \<Rightarrow> outcome" where
  "andThen r f = (case r of Inl thrown \<Rightarrow> Inl thrown | Inr pg \<Rightarrow> f pg)"

text \<open>The texts of the article page.\<close>

definition notFoundTitle :: string where
  \<open>notFoundTitle = [CHR 0xD0, CHR 0xA1, CHR 0xD1, CHR 0x82, CHR 0xD0, CHR 0xB0, CHR 0xD1,
   CHR 0x82, CHR 0xD1, CHR 0x8C, CHR 0xD1, CHR 0x8F] @
  '' '' @ [CHR 0xD0, CHR 0xBD, CHR 0xD0, CHR 0xB5] @
  '' '' @ [CHR 0xD0, CHR 0xBD, CHR 0xD0, CHR 0xB0, CHR 0xD0, CHR 0xB9, CHR 0xD0, CHR 0xB4,
   CHR 0xD0, CHR 0xB5, CHR 0xD0, CHR 0xBD, CHR 0xD0, CHR 0xB0]\<close>

definition notFoundContent :: string where
  \<open>notFoundContent = ''<p>'' @ [CHR 0xD0, CHR 0x97, CHR 0xD0, CHR 0xB0, CHR 0xD0, CHR 0xBF,
   CHR 0xD1, CHR 0x80, CHR 0xD0, CHR 0xB0, CHR 0xD1, CHR 0x88, CHR 0xD0, CHR 0xB8, CHR 0xD0,
   CHR 0xB2, CHR 0xD0, CHR 0xB0, CHR 0xD0, CHR 0xB5, CHR 0xD0, CHR 0xBC, CHR 0xD1, CHR 0x8B,
   CHR 0xD0, CHR 0xB9] @
  '' '' @ [CHR 0xD0, CHR 0xBC, CHR 0xD0, CHR 0xB0, CHR 0xD1, CHR 0x82, CHR 0xD0, CHR 0xB5,
   CHR 0xD1, CHR 0x80, CHR 0xD0, CHR 0xB8, CHR 0xD0, CHR 0xB0, CHR 0xD0, CHR 0xBB] @
  '' '' @ [CHR 0xD0, CHR 0xBE, CHR 0xD1, CHR 0x82, CHR 0xD1, CHR 0x81, CHR 0xD1, CHR 0x83,
   CHR 0xD1, CHR 0x82, CHR 0xD1, CHR 0x81, CHR 0xD1, CHR 0x82, CHR 0xD0, CHR 0xB2, CHR 0xD1,
   CHR 0x83, CHR 0xD0, CHR 0xB5, CHR 0xD1, CHR 0x82] @
  '' '' @ [CHR 0xD0, CHR 0xB2] @
  '' '' @ [CHR 0xD0, CHR 0xBD, CHR 0xD0, CHR 0xB0, CHR 0xD1, CHR 0x88, CHR 0xD0, CHR 0xB5,
   CHR 0xD0, CHR 0xB9] @
  '' '' @ [CHR 0xD0, CHR 0xB1, CHR 0xD0, CHR 0xB0, CHR 0xD0, CHR 0xB7, CHR 0xD0, CHR 0xB5] @
  ''.</p>''\<close>

definition articleDocTitle :: "post \<Rightarrow> string" where
  \<open>articleDocTitle p =
     post_title p @
     '' | Munificent''\<close>

definition heroImage :: "post \<Rightarrow> string \<Rightarrow> string" where
  \<open>heroImage p src =
     ''<img src="'' @
     src @
     ''" alt="'' @
     post_title p @
     ''" style="width:100%; border-radius:8px; margin-bottom:1rem;">''\<close>

definition articleMeta :: "post \<Rightarrow> string" where
  \<open>articleMeta p =
     ''\<newline>'' @
     ''                    <span>'' @
     post_date p @
     ''</span> | \<newline>'' @
     ''                    <span style="color: var(--accent);">'' @
     join (post_tags p) '', '' @
     ''</span>\<newline>'' @
     ''                ''\<close>

definition shareBlock :: "location \<Rightarrow> string" where
  \<open>shareBlock loc =
     ''\<newline>'' @
     ''                    <div class="share-block" style="margin-top: 2rem; padding-top: 1rem; border-top: 1px solid rgba(100, 255, 218, 0.1);">\<newline>'' @
     ''                        <h4 style="margin-bottom: 1rem;">'' @
     [CHR 0xD0, CHR 0x9F, CHR 0xD0, CHR 0xBE, CHR 0xD0, CHR 0xBD, CHR 0xD1, CHR 0x80, CHR 0xD0,
      CHR 0xB0, CHR 0xD0, CHR 0xB2, CHR 0xD0, CHR 0xB8, CHR 0xD0, CHR 0xBB, CHR 0xD0, CHR 0xB0,
      CHR 0xD1, CHR 0x81, CHR 0xD1, CHR 0x8C] @
     '' '' @
     [CHR 0xD1, CHR 0x81, CHR 0xD1, CHR 0x82, CHR 0xD0, CHR 0xB0, CHR 0xD1, CHR 0x82, CHR 0xD1,
      CHR 0x8C, CHR 0xD1, CHR 0x8F] @
     ''? '' @
     [CHR 0xD0, CHR 0x9F, CHR 0xD0, CHR 0xBE, CHR 0xD0, CHR 0xB4, CHR 0xD0, CHR 0xB5, CHR 0xD0,
      CHR 0xBB, CHR 0xD0, CHR 0xB8, CHR 0xD1, CHR 0x81, CHR 0xD1, CHR 0x8C] @
     '' '' @
     [CHR 0xD1, CHR 0x81] @
     '' '' @
     [CHR 0xD0, CHR 0xB4, CHR 0xD1, CHR 0x80, CHR 0xD1, CHR 0x83, CHR 0xD0, CHR 0xB7, CHR 0xD1,
      CHR 0x8C, CHR 0xD1, CHR 0x8F, CHR 0xD0, CHR 0xBC, CHR 0xD0, CHR 0xB8] @
     '':</h4>\<newline>'' @
     ''                        <a href="https://wa.me/?text='' @
     [CHR 0xD0, CHR 0xA1, CHR 0xD0, CHR 0xBC, CHR 0xD0, CHR 0xBE, CHR 0xD1, CHR 0x82, CHR 0xD1,
      CHR 0x80, CHR 0xD0, CHR 0xB8] @
     '' '' @
     [CHR 0xD0, CHR 0xBA, CHR 0xD1, CHR 0x80, CHR 0xD1, CHR 0x83, CHR 0xD1, CHR 0x82, CHR 0xD1,
      CHR 0x83, CHR 0xD1, CHR 0x8E] @
     '' '' @
     [CHR 0xD1, CHR 0x81, CHR 0xD1, CHR 0x82, CHR 0xD0, CHR 0xB0, CHR 0xD1, CHR 0x82, CHR 0xD1,
      CHR 0x8C, CHR 0xD1, CHR 0x8E] @
     '': '' @
     href loc @
     ''" target="_blank" class="btn-share">WhatsApp</a>\<newline>'' @
     ''                        <a href="https://t.me/share/url?url='' @
     href loc @
     ''" target="_blank" class="btn-share">Telegram</a>\<newline>'' @
     ''                    </div>\<newline>'' @
     ''                ''\<close>

text \<open>
  The hero image of a found post: \<^verbatim>\<open>post.image && heroImageDiv\<close> writes the image,
  \<^verbatim>\<open>else if (heroImageDiv)\<close> hides the element. A missing image and the empty string
  are falsy.
\<close>

definition showHeroImage :: "post \<Rightarrow> page \<Rightarrow> page" where
  "showHeroImage p pg =
     (case elems pg ''article-hero-image'' of
        None \<Rightarrow> pg
      | Some heroImageDiv \<Rightarrow>
          (case post_image p of
             Some (c # cs) \<Rightarrow>
               pg\<lparr>elems := (elems pg)(''article-hero-image'' \<mapsto>
                     heroImageDiv\<lparr>inner := Markup (heroImage p (c # cs))\<rparr>)\<rparr>
           | _ \<Rightarrow>
               pg\<lparr>elems := (elems pg)(''article-hero-image'' \<mapsto>
                     heroImageDiv\<lparr>display := ''none''\<rparr>)\<rparr>))"

text \<open>
  The callback that receives the parsed blog data: \<^verbatim>\<open>data.find(p => p.id === id)\<close>,
  then the branch of a found post or the branch of none. A post without
  \<^verbatim>\<open>content\<close> prints \<^verbatim>\<open>undefined\<close>.
\<close>

definition showArticle :: "location \<Rightarrow> int \<Rightarrow> post list \<Rightarrow> page \<Rightarrow> outcome" where
  "showArticle loc n data pg =
     (case find (\<lambda>p. post_id p = JNum n) data of
        Some p \<Rightarrow>
          andThen (setProp ''article-title'' (\<lambda>e. e\<lparr>inner := PlainText (post_title p)\<rparr>)
                     (pg\<lparr>doc_title := articleDocTitle p\<rparr>))
            (\<lambda>pg1. andThen (setProp ''article-meta'' (\<lambda>e. e\<lparr>inner := Markup (articleMeta p)\<rparr>)
                               (showHeroImage p pg1))
               (\<lambda>pg2. setProp ''article-content''
                         (\<lambda>e. e\<lparr>inner := Markup
                                 ((case post_content p of None \<Rightarrow> ''undefined'' | Some c \<Rightarrow> c)
                                  @ shareBlock loc)\<rparr>) pg2))
      | None \<Rightarrow>
          andThen (setProp ''article-title'' (\<lambda>e. e\<lparr>inner := PlainText notFoundTitle\<rparr>) pg)
            (\<lambda>pg1. setProp ''article-content'' (\<lambda>e. e\<lparr>inner := Markup notFoundContent\<rparr>) pg1))"

text \<open>
  \<^verbatim>\<open>renderFullArticle\<close>. \<^verbatim>\<open>!id\<close> holds for \<^verbatim>\<open>NaN\<close> and for zero: the title is set
  and the function returns (an exception there is caught by nobody). Otherwise the
  blog file is fetched and parsed, with no look at the status; \<^verbatim>\<open>null\<close> has no
  \<^verbatim>\<open>find\<close>; whatever is thrown on the way reaches the \<^verbatim>\<open>catch\<close> callback, which
  logs it.
\<close>

definition renderFullArticle :: "location \<Rightarrow> network \<Rightarrow> page \<Rightarrow> page" where
  "renderFullArticle loc net pg =
     (let urlParams = URLSearchParams (search loc);
          id = parseInt (params_get urlParams ''id'')
      in if id = None \<or> id = Some 0 then
           (case setProp ''article-title'' (\<lambda>e. e\<lparr>inner := PlainText notFoundTitle\<rparr>) pg of
              Inl (err, pg') \<Rightarrow> pg'\<lparr>uncaught := uncaught pg' @ [err]\<rparr>
            | Inr pg' \<Rightarrow> pg')
         else
           (case (case net_blog net of
                    NetworkError e \<Rightarrow> Inl (e, pg)
                  | Response status body \<Rightarrow>
                      (case body of
                         Inl e \<Rightarrow> Inl (e, pg)
                       | Inr None \<Rightarrow> Inl (TypeError ''Cannot read properties of null'', pg)
                       | Inr (Some data) \<Rightarrow>
                           showArticle loc (case id of None \<Rightarrow> 0 | Some n \<Rightarrow> n) data pg)) of
              Inl (err, pg') \<Rightarrow>
                pg'\<lparr>console := console pg' @ [ConsoleError ''Failed to load article:'' err]\<rparr>
            | Inr pg' \<Rightarrow> pg'))"

section \<open>The page router\<close>

text \<open>
  \<^verbatim>\<open>init\<close>, run to the point where every promise it waits for has settled. The
  three calls of \<^verbatim>\<open>fetchData\<close> under \<^verbatim>\<open>Promise.all\<close> run together: each finishes (and
  logs, when it fails) when its fetch settles, so \<open>settle_all\<close> runs them in the
  order of the times of the network. What a call returns does not depend on the
  page.
\<close>

definition settle :: "network \<Rightarrow> source \<Rightarrow> page \<Rightarrow> page" where
  "settle net s pg =
     (case s of
        Team \<Rightarrow> snd (fetchData CONFIG_paths_team (net_team net) pg)
      | Products \<Rightarrow> snd (fetchData CONFIG_paths_products (net_products net) pg)
      | Blog \<Rightarrow> snd (fetchData CONFIG_paths_blog (net_blog net) pg))"

definition settle_all :: "network \<Rightarrow> page \<Rightarrow> page" where
  "settle_all net pg =
     foldl (\<lambda>q s. settle net s q) pg (sort_key (net_settled net) [Team, Products, Blog])"

definition init :: "location \<Rightarrow> network \<Rightarrow> page \<Rightarrow> page" where
  "init loc net pg0 =
     (let pg = pg0\<lparr>console := console pg0 @
                  [ConsoleLog ''System initialized. Welcome to Munificent.'' None]\<rparr>
      in if includes_str (pathname loc) ''article.html'' then renderFullArticle loc net pg
         else if includes_str (pathname loc) ''blog.html'' then
           (let (blogData, pg1) = fetchData CONFIG_paths_blog (net_blog net) pg
            in renderAllArticles blogData pg1)
         else
           (case elems pg CONFIG_selectors_team of
              None \<Rightarrow> pg
            | Some teamContainer \<Rightarrow>
                (let teamData = fst (fetchData CONFIG_paths_team (net_team net) pg);
                     productsData = fst (fetchData CONFIG_paths_products (net_products net) pg);
                     blogData = fst (fetchData CONFIG_paths_blog (net_blog net) pg);
                     pg1 = settle_all net pg
                 in renderBlog blogData (renderServices productsData (renderTeam teamData pg1)))))"

section \<open>The mobile menu\<close>

text \<open>\<^verbatim>\<open>DOMTokenList\<close>: \<^verbatim>\<open>add\<close>, \<^verbatim>\<open>remove\<close> and \<^verbatim>\<open>toggle\<close> of one token.\<close>

definition classList_add :: "string \<Rightarrow> string list \<Rightarrow> string list" where
  "classList_add t ts = (if t \<in> set ts then ts else ts @ [t])"

definition classList_remove :: "string \<Rightarrow> string list \<Rightarrow> string list" where
  "classList_remove t ts = filter (\<lambda>x. x \<noteq> t) ts"

definition classList_toggle :: "string \<Rightarrow> string list \<Rightarrow> string list" where
  "classList_toggle t ts = (if t \<in> set ts then classList_remove t ts else ts @ [t])"

definition update_elem :: "string \<Rightarrow> (element \<Rightarrow> element) \<Rightarrow> page \<Rightarrow> page" where
  "update_elem key f pg =
     (case elems pg key of
        None \<Rightarrow> pg
      | Some e \<Rightarrow> pg\<lparr>elems := (elems pg)(key \<mapsto> f e)\<rparr>)"

text \<open>
  \<^verbatim>\<open>setupMobileMenu\<close> adds its listeners only when both elements exist. The click
  on the toggle, and the click on a navigation link:
\<close>

definition menuReady :: "page \<Rightarrow> bool" where
  "menuReady pg = (elems pg ''.menu-toggle'' \<noteq> None \<and> elems pg ''.nav-links'' \<noteq> None)"

definition menuToggle_click :: "page \<Rightarrow> page" where
  "menuToggle_click pg =
     (if menuReady pg then
        update_elem ''.menu-toggle'' (\<lambda>e. e\<lparr>classList := classList_toggle ''open'' (classList e)\<rparr>)
          (update_elem ''.nav-links'' (\<lambda>e. e\<lparr>classList := classList_toggle ''active'' (classList e)\<rparr>) pg)
      else pg)"

definition navLink_click :: "page \<Rightarrow> page" where
  "navLink_click pg =
     (if menuReady pg then
        update_elem ''.menu-toggle'' (\<lambda>e. e\<lparr>classList := classList_remove ''open'' (classList e)\<rparr>)
          (update_elem ''.nav-links'' (\<lambda>e. e\<lparr>classList := classList_remove ''active'' (classList e)\<rparr>) pg)
      else pg)"

section \<open>The contact modal\<close>

text \<open>
  \<^verbatim>\<open>setupModal\<close> returns before it adds a listener unless the modal, the open button
  and the close button exist. (The script's call of the mail widget's \<^verbatim>\<open>init\<close> comes
  first; the widget is taken to be loaded.)
\<close>

definition modalReady :: "page \<Rightarrow> bool" where
  "modalReady pg =
     (elems pg ''modal'' \<noteq> None \<and> elems pg ''openModalBtn'' \<noteq> None \<and> elems pg ''.close-btn'' \<noteq> None)"

definition setTimeout :: "timer_task \<Rightarrow> nat \<Rightarrow> page \<Rightarrow> page" where
  "setTimeout task delay pg = pg\<lparr>timers := timers pg @ [(now pg + delay, task)]\<rparr>"

definition openBtn_click :: "page \<Rightarrow> page" where
  "openBtn_click pg =
     (if modalReady pg then
        setTimeout AddOpenClass 10 (update_elem ''modal'' (\<lambda>e. e\<lparr>display := ''block''\<rparr>) pg)
      else pg)"

definition closeModal :: "page \<Rightarrow> page" where
  "closeModal pg =
     setTimeout HideModal 300
       (update_elem ''modal'' (\<lambda>e. e\<lparr>classList := classList_remove ''modal--open'' (classList e)\<rparr>) pg)"

definition closeBtn_click :: "page \<Rightarrow> page" where
  "closeBtn_click pg = (if modalReady pg then closeModal pg else pg)"

text \<open>The click that reaches \<^verbatim>\<open>window\<close>, with the key of \<^verbatim>\<open>event.target\<close>.\<close>

definition window_click :: "string \<Rightarrow> page \<Rightarrow> page" where
  "window_click target pg = (if modalReady pg \<and> target = ''modal'' then closeModal pg else pg)"

text \<open>
  Time: \<open>advance d\<close> lets \<open>d\<close> milliseconds pass. The timeouts that are due by then
  run, the earlier first and the first set first among equals.
\<close>

definition run_task :: "timer_task \<Rightarrow> page \<Rightarrow> page" where
  "run_task task pg =
     (case task of
        AddOpenClass \<Rightarrow>
          update_elem ''modal'' (\<lambda>e. e\<lparr>classList := classList_add ''modal--open'' (classList e)\<rparr>) pg
      | HideModal \<Rightarrow> update_elem ''modal'' (\<lambda>e. e\<lparr>display := ''none''\<rparr>) pg)"

definition advance :: "nat \<Rightarrow> page \<Rightarrow> page" where
  "advance d pg =
     (let t = now pg + d;
          due = filter (\<lambda>(at, task). at \<le> t) (timers pg);
          later = filter (\<lambda>(at, task). \<not> at \<le> t) (timers pg)
      in foldl (\<lambda>q (at, task). run_task task q) (pg\<lparr>now := t, timers := later\<rparr>)
           (sort_key fst due))"

text \<open>The texts of the form.\<close>

definition sendingLabel :: string where
  \<open>sendingLabel = [CHR 0xD0, CHR 0x9E, CHR 0xD1, CHR 0x82, CHR 0xD0, CHR 0xBF, CHR 0xD1,
   CHR 0x80, CHR 0xD0, CHR 0xB0, CHR 0xD0, CHR 0xB2, CHR 0xD0, CHR 0xBA, CHR 0xD0, CHR 0xB0] @
  ''...''\<close>

definition sentAlert :: string where
  \<open>sentAlert = [CHR 0xD0, CHR 0xA1, CHR 0xD0, CHR 0xBE, CHR 0xD0, CHR 0xBE, CHR 0xD0,
   CHR 0xB1, CHR 0xD1, CHR 0x89, CHR 0xD0, CHR 0xB5, CHR 0xD0, CHR 0xBD, CHR 0xD0, CHR 0xB8,
   CHR 0xD0, CHR 0xB5] @
  '' '' @ [CHR 0xD0, CHR 0xBE, CHR 0xD1, CHR 0x82, CHR 0xD0, CHR 0xBF, CHR 0xD1, CHR 0x80,
   CHR 0xD0, CHR 0xB0, CHR 0xD0, CHR 0xB2, CHR 0xD0, CHR 0xBB, CHR 0xD0, CHR 0xB5, CHR 0xD0,
   CHR 0xBD, CHR 0xD0, CHR 0xBE] @
  ''! '' @ [CHR 0xD0, CHR 0x9C, CHR 0xD1, CHR 0x8B] @
  '' '' @ [CHR 0xD1, CHR 0x81, CHR 0xD0, CHR 0xBA, CHR 0xD0, CHR 0xBE, CHR 0xD1, CHR 0x80,
   CHR 0xD0, CHR 0xBE] @
  '' '' @ [CHR 0xD1, CHR 0x81, CHR 0xD0, CHR 0xB2, CHR 0xD1, CHR 0x8F, CHR 0xD0, CHR 0xB6,
   CHR 0xD0, CHR 0xB5, CHR 0xD0, CHR 0xBC, CHR 0xD1, CHR 0x81, CHR 0xD1, CHR 0x8F] @
  '' '' @ [CHR 0xD1, CHR 0x81] @
  '' '' @ [CHR 0xD0, CHR 0xB2, CHR 0xD0, CHR 0xB0, CHR 0xD0, CHR 0xBC, CHR 0xD0, CHR 0xB8] @
  ''.''\<close>

definition failedAlert :: string where
  \<open>failedAlert = [CHR 0xD0, CHR 0x9E, CHR 0xD1, CHR 0x88, CHR 0xD0, CHR 0xB8, CHR 0xD0,
   CHR 0xB1, CHR 0xD0, CHR 0xBA, CHR 0xD0, CHR 0xB0] @
  '' '' @ [CHR 0xD0, CHR 0xBE, CHR 0xD1, CHR 0x82, CHR 0xD0, CHR 0xBF, CHR 0xD1, CHR 0x80,
   CHR 0xD0, CHR 0xB0, CHR 0xD0, CHR 0xB2, CHR 0xD0, CHR 0xBA, CHR 0xD0, CHR 0xB8] @
  ''. '' @ [CHR 0xD0, CHR 0x9F, CHR 0xD0, CHR 0xBE, CHR 0xD0, CHR 0xB6, CHR 0xD0, CHR 0xB0,
   CHR 0xD0, CHR 0xBB, CHR 0xD1, CHR 0x83, CHR 0xD0, CHR 0xB9, CHR 0xD1, CHR 0x81, CHR 0xD1,
   CHR 0x82, CHR 0xD0, CHR 0xB0] @
  '', '' @ [CHR 0xD0, CHR 0xBF, CHR 0xD0, CHR 0xBE, CHR 0xD0, CHR 0xBF, CHR 0xD1, CHR 0x80,
   CHR 0xD0, CHR 0xBE, CHR 0xD0, CHR 0xB1, CHR 0xD1, CHR 0x83, CHR 0xD0, CHR 0xB9, CHR 0xD1,
   CHR 0x82, CHR 0xD0, CHR 0xB5] @
  '' '' @ [CHR 0xD0, CHR 0xBF, CHR 0xD0, CHR 0xBE, CHR 0xD0, CHR 0xB7, CHR 0xD0, CHR 0xB6,
   CHR 0xD0, CHR 0xB5] @
  ''.''\<close>

text \<open>
  The submit listener exists when \<^verbatim>\<open>setupModal\<close> got as far as the form and the
  form exists. It runs in two parts. \<open>form_submit\<close> is the listener up to the call of
  the widget: \<open>rnd\<close> is the whole part of \<^verbatim>\<open>Math.random() * 100000\<close>, \<open>text_of\<close>
  reads the text out of markup (\<^verbatim>\<open>textContent\<close> of an element whose children were
  parsed from markup). It returns the label it saved when the widget was called.
  A form without a submit button throws at \<^verbatim>\<open>submitBtn.textContent\<close>.
\<close>

definition textContent :: "(string \<Rightarrow> string) \<Rightarrow> element \<Rightarrow> string" where
  "textContent text_of e = (case inner e of PlainText s \<Rightarrow> s | Markup m \<Rightarrow> text_of m)"

definition formReady :: "page \<Rightarrow> bool" where
  "formReady pg = (modalReady pg \<and> elems pg ''contact-form'' \<noteq> None)"

definition form_submit :: "(string \<Rightarrow> string) \<Rightarrow> nat \<Rightarrow> page \<Rightarrow> string option \<times> page" where
  "form_submit text_of rnd pg =
     (if \<not> formReady pg then (None, pg)
      else
        (let pg1 = update_elem ''input[name=\"contact_number\"]''
                     (assign_value (show_nat rnd)) pg
         in case elems pg1 ''button[type=\"submit\"]'' of
              None \<Rightarrow>
                (None, pg1\<lparr>uncaught := uncaught pg1 @
                               [TypeError ''Cannot read properties of null'']\<rparr>)
            | Some submitBtn \<Rightarrow>
                (Some (textContent text_of submitBtn),
                 pg1\<lparr>elems := (elems pg1)(''button[type=\"submit\"]'' \<mapsto>
                        submitBtn\<lparr>inner := PlainText sendingLabel, disabled := True\<rparr>)\<rparr>)))"

text \<open>
  \<open>sendForm_settled\<close> is what runs when the promise of \<^verbatim>\<open>emailjs.sendForm\<close>
  settles: the first or the second callback of \<^verbatim>\<open>then\<close>, and the callback of
  \<^verbatim>\<open>finally\<close> after either. \<^verbatim>\<open>form.reset()\<close> gives every control of the form its
  default value.
\<close>

datatype send_result = Resolved | Rejected js_error

definition form_reset :: "page \<Rightarrow> page" where
  "form_reset pg =
     pg\<lparr>elems := (\<lambda>key. map_option
            (\<lambda>e. if in_form e then e\<lparr>input_value := default_value e\<rparr> else e) (elems pg key))\<rparr>"

definition sendForm_settled :: "string \<Rightarrow> send_result \<Rightarrow> page \<Rightarrow> page" where
  "sendForm_settled originalText result pg =
     (let pg1 =
            (case result of
               Resolved \<Rightarrow>
                 form_reset (closeModal
                   (pg\<lparr>console := console pg @ [ConsoleLog ''SUCCESS!'' None],
                       alerts := alerts pg @ [sentAlert]\<rparr>))
             | Rejected error \<Rightarrow>
                 pg\<lparr>console := console pg @ [ConsoleLog ''FAILED...'' (Some error)],
                     alerts := alerts pg @ [failedAlert]\<rparr>)
      in update_elem ''button[type=\"submit\"]''
           (\<lambda>e. e\<lparr>inner := PlainText originalText, disabled := False\<rparr>) pg1)"

section \<open>Example values\<close>

text \<open>Small pages and records, for the concrete instances below.\<close>

abbreviation blank :: element where
  "blank \<equiv> \<lparr>inner = PlainText [], classList = [], display = [], disabled = False,
     input_value = [], default_value = [], in_form = False, value_mode_default = False\<rparr>"

abbreviation page_of :: "(string \<rightharpoonup> element) \<Rightarrow> page" where
  "page_of es \<equiv> \<lparr>elems = es, doc_title = [], console = [], alerts = [], now = 0,
     timers = [], uncaught = []\<rparr>"

abbreviation member_of :: "string \<Rightarrow> member" where
  "member_of name \<equiv> \<lparr>member_photo = ''img/a.jpg'', member_name = name, member_role = ''Tutor'',
     member_bio = ''Bio'', member_subjects = [''Math'', ''Physics'']\<rparr>"

abbreviation product_of :: "string \<Rightarrow> bool \<Rightarrow> product" where
  "product_of title popular \<equiv> \<lparr>product_title = title, product_price = ''100'',
     product_features = [''One''], product_isPopular = popular\<rparr>"

abbreviation post_of :: "jsval \<Rightarrow> string \<Rightarrow> string list \<Rightarrow> post" where
  "post_of i title tags \<equiv> \<lparr>post_id = i, post_date = ''2024-01-01'', post_tags = tags,
     post_title = title, post_excerpt = ''Excerpt'', post_link = ''article.html?id=1'',
     post_content = Some ''<p>Body</p>'', post_image = None\<rparr>"

abbreviation landing :: page where
  "landing \<equiv> page_of [''#team-container'' \<mapsto> blank, ''#services-container'' \<mapsto> blank,
     ''#blog-preview'' \<mapsto> blank, ''#full-blog-list'' \<mapsto> blank]"

abbreviation menu_page :: "string list \<Rightarrow> string list \<Rightarrow> page" where
  "menu_page nav tog \<equiv> page_of [''.nav-links'' \<mapsto> blank\<lparr>classList := nav\<rparr>,
     ''.menu-toggle'' \<mapsto> blank\<lparr>classList := tog\<rparr>]"

abbreviation modal_page :: "element \<Rightarrow> page" where
  "modal_page m \<equiv> page_of [''modal'' \<mapsto> m, ''openModalBtn'' \<mapsto> blank, ''.close-btn'' \<mapsto> blank]"

abbreviation hidden_modal :: element where
  "hidden_modal \<equiv> blank\<lparr>classList := [''modal''], display := ''none''\<rparr>"

abbreviation form_page :: page where
  "form_page \<equiv> page_of [''modal'' \<mapsto> blank, ''openModalBtn'' \<mapsto> blank, ''.close-btn'' \<mapsto> blank,
     ''contact-form'' \<mapsto> blank,
     ''input[name=\"contact_number\"]'' \<mapsto> blank\<lparr>in_form := True, value_mode_default := True\<rparr>,
     ''button[type=\"submit\"]'' \<mapsto> blank\<lparr>inner := PlainText ''Send'', in_form := True\<rparr>]"

abbreviation article_page :: page where
  "article_page \<equiv> page_of [''article-title'' \<mapsto> blank, ''article-hero-image'' \<mapsto> blank,
     ''article-meta'' \<mapsto> blank, ''article-content'' \<mapsto> blank]"

abbreviation at_url :: "string \<Rightarrow> string \<Rightarrow> location" where
  "at_url path query \<equiv> \<lparr>pathname = path, search = query, href = ''https://example.org'' @ path @ query\<rparr>"

abbreviation blog_of :: "post list \<Rightarrow> network" where
  "blog_of posts \<equiv> \<lparr>net_team = Response 200 (Inr (Some [member_of ''Ann''])),
     net_products = Response 200 (Inr (Some [product_of ''A'' True])),
     net_blog = Response 200 (Inr (Some posts)), net_settled = (\<lambda>s. 0)\<rparr>"

abbreviation offline :: network where
  "offline \<equiv> \<lparr>net_team = NetworkError (TypeError ''Failed to fetch''),
     net_products = NetworkError (TypeError ''Failed to fetch''),
     net_blog = NetworkError (TypeError ''Failed to fetch''),
     net_settled = (\<lambda>s. case s of Team \<Rightarrow> 30 | Products \<Rightarrow> 10 | Blog \<Rightarrow> 20)\<rparr>"

abbreviation services_only :: page where
  "services_only \<equiv> page_of [''#services-container'' \<mapsto> blank, ''#blog-preview'' \<mapsto> blank]"

section \<open>Properties of the renderers and the loader\<close>

lemma join_empty_sep: "join xs [] = concat xs"
  by (induction xs "[] :: string" rule: join.induct) simp_all

lemmas CONFIG_defs = CONFIG_paths_team_def CONFIG_paths_products_def CONFIG_paths_blog_def
  CONFIG_selectors_team_def CONFIG_selectors_services_def CONFIG_selectors_blog_def
  CONFIG_selectors_fullBlog_def

lemmas renderer_defs = renderTeam_def renderServices_def renderBlog_def renderAllArticles_def

text \<open>
  Claim C1. Given an array of records and a container that exists, each of
  \<^verbatim>\<open>renderTeam\<close>, \<^verbatim>\<open>renderServices\<close>, \<^verbatim>\<open>renderBlog\<close> and \<^verbatim>\<open>renderAllArticles\<close>
  replaces the content of its container by the concatenation of the fragments of
  the records, one fragment for each record, in the order of the array; nothing
  else on the page changes.
\<close>

theorem renderers_one_fragment_per_record:
  "(elems pg CONFIG_selectors_team = Some c1 \<longrightarrow>
      renderTeam (Some ms) pg =
        pg\<lparr>elems := (elems pg)(CONFIG_selectors_team \<mapsto>
              c1\<lparr>inner := Markup (concat (map teamCard ms))\<rparr>)\<rparr>) \<and>
   (elems pg CONFIG_selectors_services = Some c2 \<longrightarrow>
      renderServices (Some ps) pg =
        pg\<lparr>elems := (elems pg)(CONFIG_selectors_services \<mapsto>
              c2\<lparr>inner := Markup (concat (map serviceCard ps))\<rparr>)\<rparr>) \<and>
   (elems pg CONFIG_selectors_blog = Some c3 \<longrightarrow>
      renderBlog (Some bs) pg =
        pg\<lparr>elems := (elems pg)(CONFIG_selectors_blog \<mapsto>
              c3\<lparr>inner := Markup (concat (map blogCard bs))\<rparr>)\<rparr>) \<and>
   (elems pg CONFIG_selectors_fullBlog = Some c4 \<longrightarrow>
      renderAllArticles (Some bs) pg =
        pg\<lparr>elems := (elems pg)(CONFIG_selectors_fullBlog \<mapsto>
              c4\<lparr>inner := Markup (concat (map articleCard bs))\<rparr>)\<rparr>)"
  by (simp add: renderer_defs set_innerHTML_def join_empty_sep)

text \<open>The landing page with two records for each renderer.\<close>

theorem renderers_one_fragment_per_record_witness:
  "elems landing CONFIG_selectors_team = Some blank \<and>
   elems landing CONFIG_selectors_services = Some blank \<and>
   elems landing CONFIG_selectors_blog = Some blank \<and>
   elems landing CONFIG_selectors_fullBlog = Some blank \<and>
   map_option inner (elems (renderTeam (Some [member_of ''Ann'', member_of ''Bob'']) landing)
       ''#team-container'')
     = Some (Markup (teamCard (member_of ''Ann'') @ teamCard (member_of ''Bob''))) \<and>
   map_option inner (elems (renderServices (Some [product_of ''A'' True, product_of ''B'' False]) landing)
       ''#services-container'')
     = Some (Markup (serviceCard (product_of ''A'' True) @ serviceCard (product_of ''B'' False))) \<and>
   map_option inner (elems (renderBlog (Some [post_of (JNum 1) ''P'' [], post_of (JNum 2) ''Q'' []]) landing)
       ''#blog-preview'')
     = Some (Markup (blogCard (post_of (JNum 1) ''P'' []) @ blogCard (post_of (JNum 2) ''Q'' []))) \<and>
   map_option inner (elems (renderAllArticles (Some [post_of (JNum 1) ''P'' [], post_of (JNum 2) ''Q'' []]) landing)
       ''#full-blog-list'')
     = Some (Markup (articleCard (post_of (JNum 1) ''P'' []) @ articleCard (post_of (JNum 2) ''Q'' [])))"
  using renderers_one_fragment_per_record [of landing blank "[member_of ''Ann'', member_of ''Bob'']"
      blank "[product_of ''A'' True, product_of ''B'' False]"
      blank "[post_of (JNum 1) ''P'' [], post_of (JNum 2) ''Q'' []]" blank]
  by (simp add: CONFIG_defs)

text \<open>
  Claim C2. When the data is \<^verbatim>\<open>null\<close> or the container is missing, a renderer writes
  nothing: the page after the call is the page before it.
\<close>

theorem renderers_noop:
  "(data1 = None \<or> elems pg CONFIG_selectors_team = None \<longrightarrow> renderTeam data1 pg = pg) \<and>
   (data2 = None \<or> elems pg CONFIG_selectors_services = None \<longrightarrow> renderServices data2 pg = pg) \<and>
   (data3 = None \<or> elems pg CONFIG_selectors_blog = None \<longrightarrow> renderBlog data3 pg = pg) \<and>
   (data4 = None \<or> elems pg CONFIG_selectors_fullBlog = None \<longrightarrow> renderAllArticles data4 pg = pg)"
  by (auto simp: renderer_defs split: option.splits)

text \<open>No data on the landing page, and data on a page without containers.\<close>

theorem renderers_noop_witness:
  "renderTeam None landing = landing \<and>
   renderServices None landing = landing \<and>
   renderBlog None landing = landing \<and>
   renderAllArticles None landing = landing \<and>
   elems (page_of Map.empty) CONFIG_selectors_team = None \<and>
   elems (page_of Map.empty) CONFIG_selectors_services = None \<and>
   elems (page_of Map.empty) CONFIG_selectors_blog = None \<and>
   elems (page_of Map.empty) CONFIG_selectors_fullBlog = None \<and>
   renderTeam (Some [member_of ''Ann'']) (page_of Map.empty) = page_of Map.empty \<and>
   renderServices (Some [product_of ''A'' True]) (page_of Map.empty) = page_of Map.empty \<and>
   renderBlog (Some [post_of (JNum 1) ''P'' []]) (page_of Map.empty) = page_of Map.empty \<and>
   renderAllArticles (Some [post_of (JNum 1) ''P'' []]) (page_of Map.empty) = page_of Map.empty"
  using renderers_noop [of None landing None None None]
    renderers_noop [of "Some [member_of ''Ann'']" "page_of Map.empty" "Some [product_of ''A'' True]"
      "Some [post_of (JNum 1) ''P'' []]" "Some [post_of (JNum 1) ''P'' []]"]
  by simp

text \<open>
  Claim C3. \<^verbatim>\<open>fetchData\<close> returns the parsed value when the fetch resolves with a
  success status and the body parses, and leaves the log as it was. On a network
  error and on any other status it returns \<^verbatim>\<open>null\<close> and adds one error message
  to the log. It always returns (every exception of the \<^verbatim>\<open>try\<close> block is caught),
  and the log changes exactly on the outcomes that fail, by one message.
\<close>

theorem fetchData_result:
  "(outcome = Response status (Inr v) \<and> response_ok status \<longrightarrow>
      fetchData url outcome pg = (v, pg)) \<and>
   (outcome = NetworkError e \<longrightarrow>
      fetchData url outcome pg =
        (None, pg\<lparr>console := console pg @ [ConsoleError (fetchErrorMessage url) e]\<rparr>)) \<and>
   (outcome = Response status body \<and> \<not> response_ok status \<longrightarrow>
      fetchData url outcome pg =
        (None, pg\<lparr>console := console pg @
                 [ConsoleError (fetchErrorMessage url) (Error (httpErrorMessage status))]\<rparr>)) \<and>
   (fetch_failed outcome \<longrightarrow> fst (fetchData url outcome pg) = None) \<and>
   (\<exists>err. snd (fetchData url outcome pg) =
      (if fetch_failed outcome
       then pg\<lparr>console := console pg @ [ConsoleError (fetchErrorMessage url) err]\<rparr>
       else pg)) \<and>
   (console (snd (fetchData url outcome pg)) \<noteq> console pg \<longleftrightarrow> fetch_failed outcome)"
  by (auto simp: fetchData_def fetch_failed_def split: fetch_outcome.splits sum.splits)

text \<open>A status 200, a rejected fetch and a status 404.\<close>

theorem fetchData_result_witness:
  "response_ok 200 \<and> \<not> response_ok 404 \<and>
   fetchData ''data/blog.json'' (Response 200 (Inr (Some [post_of (JNum 1) ''P'' []]))) (page_of Map.empty)
     = (Some [post_of (JNum 1) ''P'' []], page_of Map.empty) \<and>
   fetchData ''data/blog.json'' (NetworkError (TypeError ''Failed to fetch'') :: post list fetch_outcome)
       (page_of Map.empty)
     = (None, (page_of Map.empty)\<lparr>console :=
          [ConsoleError ''Error fetching data from data/blog.json:'' (TypeError ''Failed to fetch'')]\<rparr>) \<and>
   fetchData ''data/blog.json'' (Response 404 (Inr (Some [post_of (JNum 1) ''P'' []]))) (page_of Map.empty)
     = (None, (page_of Map.empty)\<lparr>console :=
          [ConsoleError ''Error fetching data from data/blog.json:'' (Error ''HTTP error! Status: 404'')]\<rparr>) \<and>
   fetch_failed (Response 404 (Inr (Some [post_of (JNum 1) ''P'' []])))"
  using fetchData_result [of "Response 200 (Inr (Some [post_of (JNum 1) ''P'' []]))" 200
      "Some [post_of (JNum 1) ''P'' []]" "''data/blog.json''" "page_of Map.empty"]
    fetchData_result [of "NetworkError (TypeError ''Failed to fetch'') :: post list fetch_outcome" _ _
      "''data/blog.json''" "page_of Map.empty" "TypeError ''Failed to fetch''"]
    fetchData_result [of "Response 404 (Inr (Some [post_of (JNum 1) ''P'' []]))" 404 _
      "''data/blog.json''" "page_of Map.empty" _ "Inr (Some [post_of (JNum 1) ''P'' []])"]
  by (simp add: response_ok_def fetch_failed_def fetchErrorMessage_def httpErrorMessage_def
      show_nat.simps digit_def)

subsection \<open>The tags of a post\<close>

lemma infix_here: "\<exists>u v. s @ y = u @ s @ v"
  by (rule exI [of _ "[]"]) simp

lemma infix_later: "\<exists>u v. y = u @ s @ v \<Longrightarrow> \<exists>u v. x @ y = u @ s @ v"
proof -
  assume "\<exists>u v. y = u @ s @ v"
  then obtain u v where "y = u @ s @ v" by auto
  then have "x @ y = (x @ u) @ s @ v" by simp
  then show ?thesis by blast
qed

lemma length_concat_tags: "length ts \<le> length (concat (map tagSmall ts))"
proof (induction ts)
  case Nil
  then show ?case by simp
next
  case (Cons t ts)
  have "length (concat (map tagSmall (t # ts))) =
      length (tagSmall t) + length (concat (map tagSmall ts))"
    by simp
  moreover have "0 < length (tagSmall t)"
    by (simp add: tagSmall_def)
  moreover have "length (t # ts) = Suc (length ts)"
    by simp
  ultimately show ?case using Cons by linarith
qed

lemma more_tags_more_markup:
  assumes "2 < length ts"
  shows "concat (map tagSmall (take 2 ts)) \<noteq> concat (map tagSmall ts)"
proof -
  have "ts = take 2 ts @ drop 2 ts" by simp
  then have split: "concat (map tagSmall ts) =
      concat (map tagSmall (take 2 ts)) @ concat (map tagSmall (drop 2 ts))"
    by (metis concat_append map_append)
  have "0 < length (drop 2 ts)" using assms by simp
  then have "0 < length (concat (map tagSmall (drop 2 ts)))"
    using length_concat_tags [of "drop 2 ts"] by linarith
  then have "concat (map tagSmall (drop 2 ts)) \<noteq> []"
    by (simp del: concat_eq_Nil_conv)
  then show ?thesis
    by (simp only: split self_append_conv not_False_eq_True)
qed

lemma cards_differ: "blogCard p \<noteq> articleCard p"
  by (simp add: blogCard_def articleCard_def)

text \<open>
  Claim C9. The preview fragment of a post is the fragment of the post cut down to
  its first two tags, and it holds the markup of these two; the archive fragment
  holds the markup of every tag. For a post with more than two tags the two tag
  blocks differ, and so do the two fragments.
\<close>

theorem preview_two_tags_archive_all:
  "blogCard (p\<lparr>post_tags := take 2 (post_tags p)\<rparr>) = blogCard p \<and>
   (\<exists>u v. blogCard p = u @ concat (map tagSmall (take 2 (post_tags p))) @ v) \<and>
   (\<exists>u v. articleCard p = u @ concat (map tagSmall (post_tags p)) @ v) \<and>
   (2 < length (post_tags p) \<longrightarrow>
      concat (map tagSmall (take 2 (post_tags p))) \<noteq> concat (map tagSmall (post_tags p)) \<and>
      blogCard p \<noteq> articleCard p)"
proof (intro conjI impI)
  show "blogCard (p\<lparr>post_tags := take 2 (post_tags p)\<rparr>) = blogCard p"
    by (simp add: blogCard_def slice_def)
  show "\<exists>u v. blogCard p = u @ concat (map tagSmall (take 2 (post_tags p))) @ v"
    unfolding blogCard_def slice_def drop_0 join_empty_sep
    by (rule infix_here | rule infix_later)+
  show "\<exists>u v. articleCard p = u @ concat (map tagSmall (post_tags p)) @ v"
    unfolding articleCard_def join_empty_sep
    by (rule infix_here | rule infix_later)+
next
  assume "2 < length (post_tags p)"
  then show "concat (map tagSmall (take 2 (post_tags p))) \<noteq> concat (map tagSmall (post_tags p))"
    by (rule more_tags_more_markup)
  show "blogCard p \<noteq> articleCard p"
    by (rule cards_differ)
qed

text \<open>
  A post with three tags.
\<close>

theorem preview_two_tags_archive_all_witness:
  "2 < length (post_tags (post_of (JNum 1) ''P'' [''a'', ''b'', ''c''])) \<and>
   concat (map tagSmall (take 2 (post_tags (post_of (JNum 1) ''P'' [''a'', ''b'', ''c'']))))
     = tagSmall ''a'' @ tagSmall ''b'' \<and>
   concat (map tagSmall (post_tags (post_of (JNum 1) ''P'' [''a'', ''b'', ''c''])))
     = tagSmall ''a'' @ tagSmall ''b'' @ tagSmall ''c'' \<and>
   blogCard (post_of (JNum 1) ''P'' [''a'', ''b'', ''c'']) = blogCard (post_of (JNum 1) ''P'' [''a'', ''b'']) \<and>
   blogCard (post_of (JNum 1) ''P'' [''a'', ''b'', ''c'']) \<noteq> articleCard (post_of (JNum 1) ''P'' [''a'', ''b'', ''c''])"
  using preview_two_tags_archive_all [of "post_of (JNum 1) ''P'' [''a'', ''b'', ''c'']"]
  by simp

section \<open>Properties of the article page and the router\<close>

lemmas parse_defs = params_get_def URLSearchParams_def formDecode_def hexVal_def parseInt_def
  trimStart.simps whiteSpace_def radixDigit_def digitVal_def

lemma startsWith_iff: "startsWith s t \<longleftrightarrow> (\<exists>v. s = t @ v)"
  by (induction s t rule: startsWith.induct) auto

lemma includes_str_iff: "includes_str s t \<longleftrightarrow> (\<exists>u v. s = u @ t @ v)"
proof (induction s)
  case Nil
  then show ?case by simp
next
  case (Cons c s)
  show ?case
  proof
    assume "includes_str (c # s) t"
    then consider "startsWith (c # s) t" | "includes_str s t" by auto
    then show "\<exists>u v. c # s = u @ t @ v"
    proof cases
      case 1
      then obtain v where "c # s = t @ v" by (auto simp: startsWith_iff)
      then have "c # s = [] @ t @ v" by simp
      then show ?thesis by blast
    next
      case 2
      then obtain u v where "s = u @ t @ v" using Cons.IH by auto
      then have "c # s = (c # u) @ t @ v" by simp
      then show ?thesis by blast
    qed
  next
    assume "\<exists>u v. c # s = u @ t @ v"
    then obtain u v where uv: "c # s = u @ t @ v" by auto
    show "includes_str (c # s) t"
    proof (cases u)
      case Nil
      then have "startsWith (c # s) t" using uv by (auto simp: startsWith_iff)
      then show ?thesis by simp
    next
      case (Cons a u')
      then have "s = u' @ t @ v" using uv by simp
      then have "includes_str s t" using Cons.IH by auto
      then show ?thesis by simp
    qed
  qed
qed

lemma parseInt_null: "parseInt None = None"
  by (simp add: parse_defs)

lemma renderFullArticle_no_id:
  assumes "parseInt (params_get (URLSearchParams (search loc)) ''id'') = None \<or>
           parseInt (params_get (URLSearchParams (search loc)) ''id'') = Some 0"
  shows "renderFullArticle loc net pg =
     (case elems pg ''article-title'' of
        None \<Rightarrow> pg\<lparr>uncaught := uncaught pg @ [TypeError ''Cannot set properties of null'']\<rparr>
      | Some t \<Rightarrow> pg\<lparr>elems := (elems pg)(''article-title'' \<mapsto> t\<lparr>inner := PlainText notFoundTitle\<rparr>)\<rparr>)"
  using assms by (auto simp: renderFullArticle_def setProp_def split: option.splits)

lemma renderFullArticle_loaded:
  assumes "parseInt (params_get (URLSearchParams (search loc)) ''id'') = Some n" and "n \<noteq> 0"
    and "net_blog net = Response status (Inr (Some data))"
  shows "elems (renderFullArticle loc net pg) = elems (page_after (showArticle loc n data pg))"
  using assms
  by (auto simp: renderFullArticle_def page_after_def split: sum.splits prod.splits)

lemma showArticle_unmatched:
  assumes "find (\<lambda>p. post_id p = JNum n) data = None"
    and "elems pg ''article-title'' = Some t" and "elems pg ''article-content'' = Some c"
  shows "showArticle loc n data pg =
     Inr (pg\<lparr>elems := (elems pg)(''article-title'' \<mapsto> t\<lparr>inner := PlainText notFoundTitle\<rparr>,
                                  ''article-content'' \<mapsto> c\<lparr>inner := Markup notFoundContent\<rparr>)\<rparr>)"
  using assms by (simp add: showArticle_def andThen_def setProp_def)

lemma showArticle_title:
  assumes "elems pg ''article-title'' = Some t"
  shows "elems (page_after (showArticle loc n data pg)) ''article-title'' =
     Some (t\<lparr>inner := PlainText
        (case find (\<lambda>p. post_id p = JNum n) data of None \<Rightarrow> notFoundTitle | Some p \<Rightarrow> post_title p)\<rparr>)"
  using assms
  by (auto simp: showArticle_def andThen_def setProp_def showHeroImage_def page_after_def
      split: option.splits list.splits)

text \<open>
  Claim C4, as amended. On the article page, when the \<^verbatim>\<open>id\<close> parameter is missing
  (or parses to no number, or to zero) the title element is set to the not-found
  string. When it parses to a safe integer other than zero that is the \<^verbatim>\<open>id\<close> of no
  post of the loaded blog data, the title element is set to the not-found string
  and the content element shows the fallback message.
\<close>

theorem article_not_found:
  assumes "elems pg ''article-title'' = Some t"
  shows "(params_get (URLSearchParams (search loc)) ''id'' = None \<or>
          parseInt (params_get (URLSearchParams (search loc)) ''id'') = None \<or>
          parseInt (params_get (URLSearchParams (search loc)) ''id'') = Some 0 \<longrightarrow>
            elems (renderFullArticle loc net pg) ''article-title''
              = Some (t\<lparr>inner := PlainText notFoundTitle\<rparr>)) \<and>
         (parseInt (params_get (URLSearchParams (search loc)) ''id'') = Some n \<and> n \<noteq> 0 \<and>
          safe_integer n \<and>
          net_blog net = Response status (Inr (Some data)) \<and>
          find (\<lambda>p. post_id p = JNum n) data = None \<and>
          elems pg ''article-content'' = Some c \<longrightarrow>
            elems (renderFullArticle loc net pg) ''article-title''
              = Some (t\<lparr>inner := PlainText notFoundTitle\<rparr>) \<and>
            elems (renderFullArticle loc net pg) ''article-content''
              = Some (c\<lparr>inner := Markup notFoundContent\<rparr>))"
proof (intro conjI impI)
  assume "params_get (URLSearchParams (search loc)) ''id'' = None \<or>
          parseInt (params_get (URLSearchParams (search loc)) ''id'') = None \<or>
          parseInt (params_get (URLSearchParams (search loc)) ''id'') = Some 0"
  then have "parseInt (params_get (URLSearchParams (search loc)) ''id'') = None \<or>
          parseInt (params_get (URLSearchParams (search loc)) ''id'') = Some 0"
    using parseInt_null by auto
  then show "elems (renderFullArticle loc net pg) ''article-title''
              = Some (t\<lparr>inner := PlainText notFoundTitle\<rparr>)"
    using assms by (simp add: renderFullArticle_no_id)
next
  assume a: "parseInt (params_get (URLSearchParams (search loc)) ''id'') = Some n \<and> n \<noteq> 0 \<and>
          safe_integer n \<and>
          net_blog net = Response status (Inr (Some data)) \<and>
          find (\<lambda>p. post_id p = JNum n) data = None \<and>
          elems pg ''article-content'' = Some c"
  then have e: "elems (renderFullArticle loc net pg) = elems (page_after (showArticle loc n data pg))"
    by (simp add: renderFullArticle_loaded)
  have s: "showArticle loc n data pg =
     Inr (pg\<lparr>elems := (elems pg)(''article-title'' \<mapsto> t\<lparr>inner := PlainText notFoundTitle\<rparr>,
                                  ''article-content'' \<mapsto> c\<lparr>inner := Markup notFoundContent\<rparr>)\<rparr>)"
    using a assms by (simp add: showArticle_unmatched)
  show "elems (renderFullArticle loc net pg) ''article-title''
              = Some (t\<lparr>inner := PlainText notFoundTitle\<rparr>)"
    by (simp add: e s page_after_def)
  show "elems (renderFullArticle loc net pg) ''article-content''
              = Some (c\<lparr>inner := Markup notFoundContent\<rparr>)"
    by (simp add: e s page_after_def)
qed

text \<open>
  A query with no \<^verbatim>\<open>id\<close>, and the \<^verbatim>\<open>id\<close> of no post.
\<close>

theorem article_not_found_witness:
  "elems article_page ''article-title'' = Some blank \<and>
   elems article_page ''article-content'' = Some blank \<and>
   params_get (URLSearchParams (search (at_url ''/article.html'' ''?ref=home''))) ''id'' = None \<and>
   elems (renderFullArticle (at_url ''/article.html'' ''?ref=home'') (blog_of [post_of (JNum 1) ''P'' []])
       article_page) ''article-title''
     = Some (blank\<lparr>inner := PlainText notFoundTitle\<rparr>) \<and>
   parseInt (params_get (URLSearchParams (search (at_url ''/article.html'' ''?id=7''))) ''id'') = Some 7 \<and>
   safe_integer 7 \<and>
   find (\<lambda>p. post_id p = JNum 7) [post_of (JNum 1) ''P'' []] = None \<and>
   elems (renderFullArticle (at_url ''/article.html'' ''?id=7'') (blog_of [post_of (JNum 1) ''P'' []])
       article_page) ''article-title''
     = Some (blank\<lparr>inner := PlainText notFoundTitle\<rparr>) \<and>
   elems (renderFullArticle (at_url ''/article.html'' ''?id=7'') (blog_of [post_of (JNum 1) ''P'' []])
       article_page) ''article-content''
     = Some (blank\<lparr>inner := Markup notFoundContent\<rparr>)"
  using article_not_found [of article_page blank "at_url ''/article.html'' ''?ref=home''"
      "blog_of [post_of (JNum 1) ''P'' []]" 7 200 "[post_of (JNum 1) ''P'' []]" blank]
    article_not_found [of article_page blank "at_url ''/article.html'' ''?id=7''"
      "blog_of [post_of (JNum 1) ''P'' []]" 7 200 "[post_of (JNum 1) ''P'' []]" blank]
  by (simp add: parse_defs safe_integer_def)

text \<open>
  Claim C4 as it was stated fails: with no \<^verbatim>\<open>id\<close> in the query the title is set, but
  the content element is left as it was and does not show the fallback message.
\<close>

theorem article_missing_id_leaves_content:
  "includes_str (pathname (at_url ''/article.html'' [])) ''article.html'' \<and>
   params_get (URLSearchParams (search (at_url ''/article.html'' []))) ''id'' = None \<and>
   elems (init (at_url ''/article.html'' []) (blog_of [post_of (JNum 1) ''P'' []]) article_page)
       ''article-title''
     = Some (blank\<lparr>inner := PlainText notFoundTitle\<rparr>) \<and>
   elems (init (at_url ''/article.html'' []) (blog_of [post_of (JNum 1) ''P'' []]) article_page)
       ''article-content''
     = Some blank \<and>
   inner blank \<noteq> Markup notFoundContent"
  by (simp add: init_def renderFullArticle_def setProp_def parse_defs)



text \<open>The calls of \<^verbatim>\<open>fetchData\<close> leave everything but the log as it is.\<close>

lemma snd_fetchData:
  "snd (fetchData url outcome pg) = pg\<lparr>console := console (snd (fetchData url outcome pg))\<rparr>"
  by (auto simp: fetchData_def split: fetch_outcome.splits sum.splits)

lemma elems_fetchData [simp]: "elems (snd (fetchData url outcome pg)) = elems pg"
  by (auto simp: fetchData_def split: fetch_outcome.splits sum.splits)

lemma elems_settle [simp]: "elems (settle net s pg) = elems pg"
  by (cases s) (simp_all add: settle_def)

lemma elems_settle_all [simp]: "elems (settle_all net pg) = elems pg"
proof -
  have "elems (foldl (\<lambda>q s. settle net s q) pg ss) = elems pg" for ss
    by (induction ss arbitrary: pg) simp_all
  then show ?thesis by (simp add: settle_all_def)
qed

text \<open>
  Claim C5, as amended. \<^verbatim>\<open>init\<close> takes exactly one of three branches, by substring
  match on the path: a path that contains \<^verbatim>\<open>article.html\<close> shows the post found by the
  number in the \<^verbatim>\<open>id\<close> parameter; otherwise a path that contains \<^verbatim>\<open>blog.html\<close> renders
  the archive; otherwise, and only when the team container exists, the three
  renderers of the landing page run (each writes when its own container exists),
  after the three fetches have settled in whatever order the network gives.
\<close>

theorem init_dispatch:
  "init loc net pg =
     (let pg' = pg\<lparr>console := console pg @
                   [ConsoleLog ''System initialized. Welcome to Munificent.'' None]\<rparr>
      in if \<exists>u v. pathname loc = u @ ''article.html'' @ v then renderFullArticle loc net pg'
         else if \<exists>u v. pathname loc = u @ ''blog.html'' @ v then
           (case fetchData CONFIG_paths_blog (net_blog net) pg' of
              (blogData, pg1) \<Rightarrow> renderAllArticles blogData pg1)
         else if elems pg CONFIG_selectors_team = None then pg'
         else
           renderBlog (fst (fetchData CONFIG_paths_blog (net_blog net) pg'))
             (renderServices (fst (fetchData CONFIG_paths_products (net_products net) pg'))
                (renderTeam (fst (fetchData CONFIG_paths_team (net_team net) pg'))
                   (foldl (\<lambda>q s. settle net s q) pg'
                      (sort_key (net_settled net) [Team, Products, Blog]))))) \<and>
   ((\<exists>u v. pathname loc = u @ ''article.html'' @ v) \<and>
    parseInt (params_get (URLSearchParams (search loc)) ''id'') = Some n \<and> n \<noteq> 0 \<and>
    safe_integer n \<and>
    net_blog net = Response status (Inr (Some data)) \<and>
    find (\<lambda>p. post_id p = JNum n) data = Some p \<and>
    elems pg ''article-title'' = Some t \<longrightarrow>
      elems (init loc net pg) ''article-title'' = Some (t\<lparr>inner := PlainText (post_title p)\<rparr>))"
proof (intro conjI impI)
  show "init loc net pg =
     (let pg' = pg\<lparr>console := console pg @
                   [ConsoleLog ''System initialized. Welcome to Munificent.'' None]\<rparr>
      in if \<exists>u v. pathname loc = u @ ''article.html'' @ v then renderFullArticle loc net pg'
         else if \<exists>u v. pathname loc = u @ ''blog.html'' @ v then
           (case fetchData CONFIG_paths_blog (net_blog net) pg' of
              (blogData, pg1) \<Rightarrow> renderAllArticles blogData pg1)
         else if elems pg CONFIG_selectors_team = None then pg'
         else
           renderBlog (fst (fetchData CONFIG_paths_blog (net_blog net) pg'))
             (renderServices (fst (fetchData CONFIG_paths_products (net_products net) pg'))
                (renderTeam (fst (fetchData CONFIG_paths_team (net_team net) pg'))
                   (foldl (\<lambda>q s. settle net s q) pg'
                      (sort_key (net_settled net) [Team, Products, Blog])))))"
    unfolding init_def Let_def includes_str_iff settle_all_def
    by (simp split: option.splits)
next
  assume a: "(\<exists>u v. pathname loc = u @ ''article.html'' @ v) \<and>
    parseInt (params_get (URLSearchParams (search loc)) ''id'') = Some n \<and> n \<noteq> 0 \<and>
    safe_integer n \<and>
    net_blog net = Response status (Inr (Some data)) \<and>
    find (\<lambda>p. post_id p = JNum n) data = Some p \<and>
    elems pg ''article-title'' = Some t"
  let ?pg = "pg\<lparr>console := console pg @
                   [ConsoleLog ''System initialized. Welcome to Munificent.'' None]\<rparr>"
  from a have "includes_str (pathname loc) ''article.html''"
    unfolding includes_str_iff by blast
  then have "init loc net pg = renderFullArticle loc net ?pg"
    by (simp add: init_def)
  moreover have "elems (renderFullArticle loc net ?pg) = elems (page_after (showArticle loc n data ?pg))"
    using a by (simp add: renderFullArticle_loaded)
  moreover have "elems (page_after (showArticle loc n data ?pg)) ''article-title'' =
     Some (t\<lparr>inner := PlainText (post_title p)\<rparr>)"
    using a showArticle_title [of ?pg t loc n data] by simp
  ultimately show "elems (init loc net pg) ''article-title'' = Some (t\<lparr>inner := PlainText (post_title p)\<rparr>)"
    by simp
qed

text \<open>
  An article path, a blog path, a landing path, and a landing path with the three
  files out of reach, the fetch of the team file the last to settle.
\<close>

theorem init_dispatch_witness:
  "(\<exists>u v. pathname (at_url ''/article.html'' ''?id=2'') = u @ ''article.html'' @ v) \<and>
   parseInt (params_get (URLSearchParams (search (at_url ''/article.html'' ''?id=2''))) ''id'') = Some 2 \<and>
   safe_integer 2 \<and>
   find (\<lambda>p. post_id p = JNum 2) [post_of (JNum 1) ''P'' [], post_of (JNum 2) ''Q'' []]
     = Some (post_of (JNum 2) ''Q'' []) \<and>
   elems article_page ''article-title'' = Some blank \<and>
   elems (init (at_url ''/article.html'' ''?id=2'')
       (blog_of [post_of (JNum 1) ''P'' [], post_of (JNum 2) ''Q'' []]) article_page) ''article-title''
     = Some (blank\<lparr>inner := PlainText ''Q''\<rparr>) \<and>
   map_option inner (elems (init (at_url ''/blog.html'' [])
       (blog_of [post_of (JNum 1) ''P'' [], post_of (JNum 2) ''Q'' []]) landing) ''#full-blog-list'')
     = Some (Markup (articleCard (post_of (JNum 1) ''P'' []) @ articleCard (post_of (JNum 2) ''Q'' []))) \<and>
   map_option inner (elems (init (at_url ''/index.html'' [])
       (blog_of [post_of (JNum 1) ''P'' [], post_of (JNum 2) ''Q'' []]) landing) ''#team-container'')
     = Some (Markup (teamCard (member_of ''Ann''))) \<and>
   map_option inner (elems (init (at_url ''/index.html'' [])
       (blog_of [post_of (JNum 1) ''P'' [], post_of (JNum 2) ''Q'' []]) landing) ''#blog-preview'')
     = Some (Markup (blogCard (post_of (JNum 1) ''P'' []) @ blogCard (post_of (JNum 2) ''Q'' []))) \<and>
   map_option inner (elems (init (at_url ''/index.html'' [])
       (blog_of [post_of (JNum 1) ''P'' [], post_of (JNum 2) ''Q'' []]) landing) ''#full-blog-list'')
     = Some (PlainText []) \<and>
   init (at_url ''/index.html'' []) offline landing =
     landing\<lparr>console :=
       [ConsoleLog ''System initialized. Welcome to Munificent.'' None,
        ConsoleError ''Error fetching data from data/products.json:'' (TypeError ''Failed to fetch''),
        ConsoleError ''Error fetching data from data/blog.json:'' (TypeError ''Failed to fetch''),
        ConsoleError ''Error fetching data from data/team.json:'' (TypeError ''Failed to fetch'')]\<rparr>"
proof -
  have path: "\<exists>u v. pathname (at_url ''/article.html'' ''?id=2'') = u @ ''article.html'' @ v"
    unfolding includes_str_iff [symmetric] by simp
  have no_article: "\<not> includes_str ''/blog.html'' ''article.html''"
    "\<not> includes_str ''/index.html'' ''article.html''" "\<not> includes_str ''/index.html'' ''blog.html''"
    "includes_str ''/blog.html'' ''blog.html''"
    by simp_all
  show ?thesis
    using path
      init_dispatch [of "at_url ''/article.html'' ''?id=2''"
        "blog_of [post_of (JNum 1) ''P'' [], post_of (JNum 2) ''Q'' []]" article_page 2 200
        "[post_of (JNum 1) ''P'' [], post_of (JNum 2) ''Q'' []]" "post_of (JNum 2) ''Q'' []" blank]
    by (simp add: parse_defs safe_integer_def init_def no_article fetchData_def response_ok_def
        CONFIG_defs renderer_defs set_innerHTML_def settle_all_def settle_def fetchErrorMessage_def)
qed

text \<open>
  Claim C5 as it was stated fails: on a landing path, a page that has the services
  container but no team container is left as it is, although the services renderer
  would write into the container.
\<close>

theorem landing_needs_team_container:
  "\<not> includes_str (pathname (at_url ''/index.html'' [])) ''article.html'' \<and>
   \<not> includes_str (pathname (at_url ''/index.html'' [])) ''blog.html'' \<and>
   elems services_only CONFIG_selectors_services = Some blank \<and>
   map_option inner (elems (renderServices (Some [product_of ''A'' True]) services_only)
       CONFIG_selectors_services)
     = Some (Markup (serviceCard (product_of ''A'' True))) \<and>
   elems (init (at_url ''/index.html'' []) (blog_of [post_of (JNum 1) ''P'' []]) services_only)
       CONFIG_selectors_services
     = Some blank \<and>
   inner blank \<noteq> Markup (serviceCard (product_of ''A'' True))"
  by (simp add: init_def CONFIG_defs renderer_defs set_innerHTML_def)

section \<open>Properties of the menu, the modal and the form\<close>

lemma elems_update_elem:
  "elems (update_elem key f pg) k =
     (if k = key then map_option f (elems pg key) else elems pg k)"
  by (simp add: update_elem_def split: option.splits)

lemma update_elem_other [simp]:
  "console (update_elem key f pg) = console pg"
  "alerts (update_elem key f pg) = alerts pg"
  "now (update_elem key f pg) = now pg"
  "timers (update_elem key f pg) = timers pg"
  "uncaught (update_elem key f pg) = uncaught pg"
  "doc_title (update_elem key f pg) = doc_title pg"
  by (simp_all add: update_elem_def split: option.splits)

lemma toggle_twice_set: "set (classList_toggle t (classList_toggle t ts)) = set ts"
  by (auto simp: classList_toggle_def classList_remove_def)

text \<open>
  Two toggles give the list back exactly when the token stands nowhere but at the
  end of the list.
\<close>

lemma toggle_twice_exact:
  "classList_toggle t (classList_toggle t ts) = ts \<longleftrightarrow> t \<notin> set (butlast ts)"
proof (cases ts rule: rev_cases)
  case Nil
  then show ?thesis by (simp add: classList_toggle_def classList_remove_def)
next
  case (snoc ys y)
  show ?thesis
  proof (cases "y = t")
    case True
    then show ?thesis using snoc
      by (auto simp: classList_toggle_def classList_remove_def filter_id_conv)
  next
    case False
    show ?thesis
    proof (cases "t \<in> set ys")
      case True
      have "last (filter (\<lambda>x. x \<noteq> t) ys @ [y, t]) = t" by simp
      moreover have "last (ys @ [y]) = y" by simp
      ultimately have "filter (\<lambda>x. x \<noteq> t) ys @ [y, t] \<noteq> ys @ [y]"
        using False by metis
      then show ?thesis using snoc True False
        by (simp add: classList_toggle_def classList_remove_def)
    next
      case absent: False
      then show ?thesis using snoc False
        by (auto simp: classList_toggle_def classList_remove_def filter_id_conv)
    qed
  qed
qed

lemma menuReady_update_elem [simp]: "menuReady (update_elem key f pg) = menuReady pg"
  by (auto simp: menuReady_def elems_update_elem)

lemma elems_toggle_twice:
  assumes "elems pg ''.nav-links'' = Some nav" and "elems pg ''.menu-toggle'' = Some tog"
  shows "elems (menuToggle_click (menuToggle_click pg)) =
     (elems pg)(''.nav-links'' \<mapsto>
          nav\<lparr>classList := classList_toggle ''active'' (classList_toggle ''active'' (classList nav))\<rparr>,
        ''.menu-toggle'' \<mapsto>
          tog\<lparr>classList := classList_toggle ''open'' (classList_toggle ''open'' (classList tog))\<rparr>)"
proof
  fix k
  have "menuReady pg" using assms by (simp add: menuReady_def)
  then show "elems (menuToggle_click (menuToggle_click pg)) k =
     ((elems pg)(''.nav-links'' \<mapsto>
          nav\<lparr>classList := classList_toggle ''active'' (classList_toggle ''active'' (classList nav))\<rparr>,
        ''.menu-toggle'' \<mapsto>
          tog\<lparr>classList := classList_toggle ''open'' (classList_toggle ''open'' (classList tog))\<rparr>)) k"
    using assms by (simp add: menuToggle_click_def elems_update_elem)
qed

text \<open>
  Claim C7, as amended. After two clicks on the menu toggle the navigation element
  and the toggle element carry the same set of classes as before, whatever they
  carried. The class lists, and with them the page, are exactly as before if and
  only if the class that is toggled (\<^verbatim>\<open>active\<close> on the navigation element, \<^verbatim>\<open>open\<close> on
  the toggle) was absent or was the last token of its list.
\<close>

theorem menu_toggle_twice:
  "map_option (\<lambda>e. set (classList e)) (elems (menuToggle_click (menuToggle_click pg)) ''.nav-links'')
     = map_option (\<lambda>e. set (classList e)) (elems pg ''.nav-links'') \<and>
   map_option (\<lambda>e. set (classList e)) (elems (menuToggle_click (menuToggle_click pg)) ''.menu-toggle'')
     = map_option (\<lambda>e. set (classList e)) (elems pg ''.menu-toggle'') \<and>
   (elems pg ''.nav-links'' = Some nav \<and> elems pg ''.menu-toggle'' = Some tog \<longrightarrow>
      (menuToggle_click (menuToggle_click pg) = pg \<longleftrightarrow>
         ''active'' \<notin> set (butlast (classList nav)) \<and> ''open'' \<notin> set (butlast (classList tog))))"
proof (intro conjI impI)
  show "map_option (\<lambda>e. set (classList e)) (elems (menuToggle_click (menuToggle_click pg)) ''.nav-links'')
     = map_option (\<lambda>e. set (classList e)) (elems pg ''.nav-links'')"
    by (cases "elems pg ''.nav-links''")
      (simp_all add: menuToggle_click_def elems_update_elem toggle_twice_set)
  show "map_option (\<lambda>e. set (classList e)) (elems (menuToggle_click (menuToggle_click pg)) ''.menu-toggle'')
     = map_option (\<lambda>e. set (classList e)) (elems pg ''.menu-toggle'')"
    by (cases "elems pg ''.menu-toggle''")
      (simp_all add: menuToggle_click_def elems_update_elem toggle_twice_set)
next
  assume a: "elems pg ''.nav-links'' = Some nav \<and> elems pg ''.menu-toggle'' = Some tog"
  then have ready: "menuReady pg" by (simp add: menuReady_def)
  let ?pg2 = "menuToggle_click (menuToggle_click pg)"
  have e: "elems ?pg2 =
     (elems pg)(''.nav-links'' \<mapsto>
          nav\<lparr>classList := classList_toggle ''active'' (classList_toggle ''active'' (classList nav))\<rparr>,
        ''.menu-toggle'' \<mapsto>
          tog\<lparr>classList := classList_toggle ''open'' (classList_toggle ''open'' (classList tog))\<rparr>)"
    using a by (simp add: elems_toggle_twice)
  show "?pg2 = pg \<longleftrightarrow>
         ''active'' \<notin> set (butlast (classList nav)) \<and> ''open'' \<notin> set (butlast (classList tog))"
  proof
    assume same: "?pg2 = pg"
    have "elems ?pg2 ''.nav-links'' = Some nav" and "elems ?pg2 ''.menu-toggle'' = Some tog"
      using a by (simp_all add: same)
    then have
      n: "nav\<lparr>classList := classList_toggle ''active'' (classList_toggle ''active'' (classList nav))\<rparr> = nav"
      and g: "tog\<lparr>classList := classList_toggle ''open'' (classList_toggle ''open'' (classList tog))\<rparr> = tog"
      by (simp_all add: e)
    have "classList_toggle ''active'' (classList_toggle ''active'' (classList nav)) = classList nav"
      using arg_cong [OF n, of classList] by simp
    moreover have "classList_toggle ''open'' (classList_toggle ''open'' (classList tog)) = classList tog"
      using arg_cong [OF g, of classList] by simp
    ultimately show "''active'' \<notin> set (butlast (classList nav)) \<and> ''open'' \<notin> set (butlast (classList tog))"
      by (simp add: toggle_twice_exact)
  next
    assume "''active'' \<notin> set (butlast (classList nav)) \<and> ''open'' \<notin> set (butlast (classList tog))"
    then have "classList_toggle ''active'' (classList_toggle ''active'' (classList nav)) = classList nav"
      and "classList_toggle ''open'' (classList_toggle ''open'' (classList tog)) = classList tog"
      by (simp_all add: toggle_twice_exact)
    then have "elems ?pg2 = elems pg"
      using a by (auto simp: e)
    moreover have "page.more ?pg2 = page.more pg"
      using ready by (simp add: menuToggle_click_def update_elem_def split: option.splits)
    ultimately show "?pg2 = pg"
      using ready by (intro page.equality) (simp_all add: menuToggle_click_def)
  qed
qed

text \<open>A closed menu, and an open menu whose toggled classes stand last.\<close>

theorem menu_toggle_twice_witness:
  "elems (menu_page [''nav-links''] [''menu-toggle'']) ''.nav-links'' = Some (blank\<lparr>classList := [''nav-links'']\<rparr>) \<and>
   elems (menu_page [''nav-links''] [''menu-toggle'']) ''.menu-toggle'' = Some (blank\<lparr>classList := [''menu-toggle'']\<rparr>) \<and>
   ''active'' \<notin> set (butlast [''nav-links'']) \<and> ''open'' \<notin> set (butlast [''menu-toggle'']) \<and>
   map_option classList (elems (menuToggle_click (menu_page [''nav-links''] [''menu-toggle''])) ''.nav-links'')
     = Some [''nav-links'', ''active''] \<and>
   menuToggle_click (menuToggle_click (menu_page [''nav-links''] [''menu-toggle'']))
     = menu_page [''nav-links''] [''menu-toggle''] \<and>
   ''active'' \<notin> set (butlast [''nav-links'', ''active'']) \<and>
   ''open'' \<notin> set (butlast [''menu-toggle'', ''open'']) \<and>
   menuToggle_click (menuToggle_click (menu_page [''nav-links'', ''active''] [''menu-toggle'', ''open'']))
     = menu_page [''nav-links'', ''active''] [''menu-toggle'', ''open''] \<and>
   ''active'' \<in> set (butlast [''active'', ''nav-links'']) \<and>
   menuToggle_click (menuToggle_click (menu_page [''active'', ''nav-links''] [''menu-toggle'']))
     \<noteq> menu_page [''active'', ''nav-links''] [''menu-toggle'']"
  using menu_toggle_twice [of "menu_page [''nav-links''] [''menu-toggle'']"
      "blank\<lparr>classList := [''nav-links'']\<rparr>" "blank\<lparr>classList := [''menu-toggle'']\<rparr>"]
    menu_toggle_twice [of "menu_page [''nav-links'', ''active''] [''menu-toggle'', ''open'']"
      "blank\<lparr>classList := [''nav-links'', ''active'']\<rparr>" "blank\<lparr>classList := [''menu-toggle'', ''open'']\<rparr>"]
    menu_toggle_twice [of "menu_page [''active'', ''nav-links''] [''menu-toggle'']"
      "blank\<lparr>classList := [''active'', ''nav-links'']\<rparr>" "blank\<lparr>classList := [''menu-toggle'']\<rparr>"]
  by (simp add: menuToggle_click_def menuReady_def update_elem_def classList_toggle_def)

text \<open>
  Claim C7 as it was stated fails: on a navigation element whose class list is
  \<^verbatim>\<open>active nav-links\<close>, two clicks leave the list \<^verbatim>\<open>nav-links active\<close>.
\<close>

theorem menu_toggle_twice_reorders:
  "menuReady (menu_page [''active'', ''nav-links''] [''menu-toggle'']) \<and>
   map_option classList (elems (menu_page [''active'', ''nav-links''] [''menu-toggle'']) ''.nav-links'')
     = Some [''active'', ''nav-links''] \<and>
   map_option classList
       (elems (menuToggle_click (menuToggle_click (menu_page [''active'', ''nav-links''] [''menu-toggle''])))
          ''.nav-links'')
     = Some [''nav-links'', ''active''] \<and>
   [''nav-links'', ''active''] \<noteq> [''active'', ''nav-links'']"
  by (simp add: menuToggle_click_def menuReady_def update_elem_def classList_toggle_def
      classList_remove_def)

lemma add_then_remove: "t \<notin> set ts \<Longrightarrow> classList_remove t (classList_add t ts) = ts"
  by (auto simp: classList_add_def classList_remove_def filter_id_conv)

text \<open>The click on the backdrop closes the modal as the close button does.\<close>

lemma window_click_modal: "window_click ''modal'' pg = closeBtn_click pg"
  by (simp add: window_click_def closeBtn_click_def)

lemma modalReady_update_elem [simp]: "modalReady (update_elem key f pg) = modalReady pg"
  by (auto simp: modalReady_def elems_update_elem)

lemma open_wait_close_slow:
  assumes m: "elems pg ''modal'' = Some m" and ready: "modalReady pg"
    and t: "timers pg = []" and d: "10 \<le> d" and w: "300 \<le> w"
  shows "advance w (closeBtn_click (advance d (openBtn_click pg))) =
     pg\<lparr>elems := (elems pg)(''modal'' \<mapsto>
           m\<lparr>classList := classList_remove ''modal--open'' (classList_add ''modal--open'' (classList m)),
              display := ''none''\<rparr>),
        now := now pg + d + w\<rparr>"
  using assms
  by (intro page.equality)
    (simp_all add: openBtn_click_def closeBtn_click_def closeModal_def advance_def setTimeout_def
      run_task_def update_elem_def modalReady_def)

lemma open_wait_close_display:
  assumes m: "elems pg ''modal'' = Some m" and ready: "modalReady pg"
    and t: "timers pg = []" and w: "300 \<le> w"
  shows "map_option display (elems (advance w (closeBtn_click (advance d (openBtn_click pg)))) ''modal'')
     = Some ''none''"
proof (cases "10 \<le> d")
  case True
  then show ?thesis using open_wait_close_slow [OF m ready t True w] by simp
next
  case False
  then show ?thesis using assms
    by (simp add: openBtn_click_def closeBtn_click_def closeModal_def advance_def setTimeout_def
      run_task_def update_elem_def modalReady_def)
qed

text \<open>
  Claim C8, as amended. From the hidden modal with no timeout pending, the open
  click, then the close click, then the transition delay of 300 milliseconds leave
  the modal with \<^verbatim>\<open>display: none\<close>; when the close click comes at least 10
  milliseconds after the open click, the modal is without the open class and the
  page is the page it was, but for the clock.
\<close>

theorem modal_open_close:
  assumes "modalReady pg" and "elems pg ''modal'' = Some m" and "display m = ''none''"
    and "''modal--open'' \<notin> set (classList m)" and "timers pg = []" and "300 \<le> w"
  shows "map_option display (elems (advance w (closeBtn_click (advance d (openBtn_click pg)))) ''modal'')
           = Some ''none'' \<and>
         (10 \<le> d \<longrightarrow>
            advance w (closeBtn_click (advance d (openBtn_click pg))) = pg\<lparr>now := now pg + d + w\<rparr>)"
proof (intro conjI impI)
  show "map_option display (elems (advance w (closeBtn_click (advance d (openBtn_click pg)))) ''modal'')
           = Some ''none''"
    using assms by (simp add: open_wait_close_display)
next
  assume d: "10 \<le> d"
  have "m\<lparr>classList := classList_remove ''modal--open'' (classList_add ''modal--open'' (classList m)),
          display := ''none''\<rparr> = m"
    using assms(3,4) by (simp add: add_then_remove)
  moreover have "(elems pg)(''modal'' \<mapsto> m) = elems pg"
    using assms(2) by (simp add: map_upd_triv)
  ultimately show "advance w (closeBtn_click (advance d (openBtn_click pg))) = pg\<lparr>now := now pg + d + w\<rparr>"
    using open_wait_close_slow [OF assms(2) assms(1) assms(5) d assms(6)] by simp
qed

text \<open>
  Two seconds between the clicks.
\<close>

theorem modal_open_close_witness:
  "modalReady (modal_page hidden_modal) \<and>
   elems (modal_page hidden_modal) ''modal'' = Some hidden_modal \<and>
   display hidden_modal = ''none'' \<and>
   ''modal--open'' \<notin> set (classList hidden_modal) \<and>
   timers (modal_page hidden_modal) = [] \<and> (300 :: nat) \<le> 300 \<and> (10 :: nat) \<le> 2000 \<and>
   map_option classList (elems (advance 2000 (openBtn_click (modal_page hidden_modal))) ''modal'')
     = Some [''modal'', ''modal--open''] \<and>
   map_option display (elems (advance 2000 (openBtn_click (modal_page hidden_modal))) ''modal'')
     = Some ''block'' \<and>
   advance 300 (closeBtn_click (advance 2000 (openBtn_click (modal_page hidden_modal))))
     = (modal_page hidden_modal)\<lparr>now := 2300\<rparr>"
  using modal_open_close [of "modal_page hidden_modal" hidden_modal 300 2000]
  by (simp add: modalReady_def openBtn_click_def advance_def setTimeout_def run_task_def
      update_elem_def classList_add_def)

text \<open>
  Claim C8 as it was stated fails: a close click 5 milliseconds after the open
  click comes before the open class is added, and the modal ends hidden with the
  open class.
\<close>

theorem modal_quick_close_keeps_open_class:
  "modalReady (modal_page hidden_modal) \<and>
   map_option display
     (elems (advance 300 (closeBtn_click (advance 5 (openBtn_click (modal_page hidden_modal))))) ''modal'')
     = Some ''none'' \<and>
   map_option classList
     (elems (advance 300 (closeBtn_click (advance 5 (openBtn_click (modal_page hidden_modal))))) ''modal'')
     = Some [''modal'', ''modal--open''] \<and>
   timers (advance 300 (closeBtn_click (advance 5 (openBtn_click (modal_page hidden_modal))))) = []"
  by (simp add: modalReady_def openBtn_click_def closeBtn_click_def closeModal_def advance_def
      setTimeout_def run_task_def update_elem_def classList_add_def classList_remove_def)

lemma elems_closeModal:
  "elems (closeModal pg) k =
     (if k = ''modal''
      then map_option (\<lambda>e. e\<lparr>classList := classList_remove ''modal--open'' (classList e)\<rparr>) (elems pg k)
      else elems pg k)"
  by (simp add: closeModal_def setTimeout_def elems_update_elem)

lemma elems_form_reset:
  "elems (form_reset pg) k =
     map_option (\<lambda>e. if in_form e then e\<lparr>input_value := default_value e\<rparr> else e) (elems pg k)"
  by (simp add: form_reset_def)

text \<open>
  Claim C6. A submission saves the label of the submit button, and disables the
  button under the sending label. When the call of the widget settles, resolved or
  rejected, on whatever page it finds then, the button is enabled and its text is
  the saved label.
\<close>

theorem submit_restores_button:
  assumes "formReady pg"
    and "elems pg ''button[type=\"submit\"]'' = Some b"
    and "elems pg' ''button[type=\"submit\"]'' = Some b'"
  shows "fst (form_submit text_of rnd pg) = Some (textContent text_of b) \<and>
     map_option (\<lambda>e. (disabled e, inner e))
         (elems (snd (form_submit text_of rnd pg)) ''button[type=\"submit\"]'')
       = Some (True, PlainText sendingLabel) \<and>
     map_option (\<lambda>e. (disabled e, textContent text_of e))
         (elems (sendForm_settled (textContent text_of b) result pg') ''button[type=\"submit\"]'')
       = Some (False, textContent text_of b)"
proof (intro conjI)
  have btn: "elems (update_elem ''input[name=\"contact_number\"]'' f pg) ''button[type=\"submit\"]'' = Some b" for f
    using assms(2) by (simp add: elems_update_elem)
  show "fst (form_submit text_of rnd pg) = Some (textContent text_of b)"
    using assms(1) by (simp add: form_submit_def Let_def btn)
  show "map_option (\<lambda>e. (disabled e, inner e))
         (elems (snd (form_submit text_of rnd pg)) ''button[type=\"submit\"]'')
       = Some (True, PlainText sendingLabel)"
    using assms(1) by (simp add: form_submit_def Let_def btn)
  show "map_option (\<lambda>e. (disabled e, textContent text_of e))
         (elems (sendForm_settled (textContent text_of b) result pg') ''button[type=\"submit\"]'')
       = Some (False, textContent text_of b)"
    using assms(3)
    by (cases result)
      (simp_all add: sendForm_settled_def elems_update_elem elems_form_reset elems_closeModal
        textContent_def)
qed

text \<open>
  A form whose button reads Send, resolved and rejected. The number field is a
  hidden input, so the number stamped into it outlives the reset.
\<close>

theorem submit_restores_button_witness:
  "formReady form_page \<and>
   elems form_page ''button[type=\"submit\"]'' = Some (blank\<lparr>inner := PlainText ''Send'', in_form := True\<rparr>) \<and>
   form_submit (\<lambda>m. m) 4711 form_page =
     (Some ''Send'',
      form_page\<lparr>elems := (elems form_page)
        (''input[name=\"contact_number\"]'' \<mapsto>
           blank\<lparr>in_form := True, value_mode_default := True, input_value := ''4711'',
                 default_value := ''4711''\<rparr>,
         ''button[type=\"submit\"]'' \<mapsto>
           blank\<lparr>inner := PlainText sendingLabel, in_form := True, disabled := True\<rparr>)\<rparr>) \<and>
   map_option (\<lambda>e. (disabled e, inner e))
       (elems (sendForm_settled ''Send'' Resolved (snd (form_submit (\<lambda>m. m) 4711 form_page)))
          ''button[type=\"submit\"]'')
     = Some (False, PlainText ''Send'') \<and>
   map_option input_value
       (elems (sendForm_settled ''Send'' Resolved (snd (form_submit (\<lambda>m. m) 4711 form_page)))
          ''input[name=\"contact_number\"]'')
     = Some ''4711'' \<and>
   map_option (\<lambda>e. (disabled e, inner e))
       (elems (sendForm_settled ''Send'' (Rejected (Rejection ''412''))
          (snd (form_submit (\<lambda>m. m) 4711 form_page))) ''button[type=\"submit\"]'')
     = Some (False, PlainText ''Send'')"
  using submit_restores_button [of form_page "blank\<lparr>inner := PlainText ''Send'', in_form := True\<rparr>"
      "snd (form_submit (\<lambda>m. m) 4711 form_page)"
      "blank\<lparr>inner := PlainText sendingLabel, in_form := True, disabled := True\<rparr>"
      "\<lambda>m. m" 4711 Resolved]
    submit_restores_button [of form_page "blank\<lparr>inner := PlainText ''Send'', in_form := True\<rparr>"
      "snd (form_submit (\<lambda>m. m) 4711 form_page)"
      "blank\<lparr>inner := PlainText sendingLabel, in_form := True, disabled := True\<rparr>"
      "\<lambda>m. m" 4711 "Rejected (Rejection ''412'')"]
  by (simp add: formReady_def modalReady_def form_submit_def update_elem_def textContent_def
      sendForm_settled_def form_reset_def closeModal_def setTimeout_def assign_value_def
      show_nat.simps digit_def fun_upd_twist)

end
